theory Spec2Isabelle
  imports Main
begin

section \<open>Strings of the host language\<close>

text \<open>
  A JavaScript string is a sequence of UTF-16 code units. Code units are natural numbers
  here; \<open>str\<close> turns an ASCII literal into its code units.
\<close>

type_synonym jstring = "nat list"

abbreviation str :: "string \<Rightarrow> jstring" where
  "str s \<equiv> map of_char s"

definition startsWith :: "jstring \<Rightarrow> jstring \<Rightarrow> bool" where
  "startsWith s p = (take (length p) s = p)"

definition endsWith :: "jstring \<Rightarrow> jstring \<Rightarrow> bool" where
  "endsWith s p = (length p \<le> length s \<and> drop (length s - length p) s = p)"

definition starts_at :: "jstring \<Rightarrow> jstring \<Rightarrow> nat \<Rightarrow> bool" where
  "starts_at s p i = (i + length p \<le> length s \<and> take (length p) (drop i s) = p)"

text \<open>\<open>s.indexOf(p)\<close>: the first position where \<open>p\<close> occurs in \<open>s\<close>.\<close>

definition indexOf :: "jstring \<Rightarrow> jstring \<Rightarrow> nat option" where
  "indexOf s p = find (starts_at s p) [0..<Suc (length s)]"

definition includes_str :: "jstring \<Rightarrow> jstring \<Rightarrow> bool" where
  "includes_str s p = (indexOf s p \<noteq> None)"

text \<open>White space and line terminators as \<open>\s\<close>, \<open>trim()\<close> and \<open>.\<close> see them.\<close>

definition is_line_terminator :: "nat \<Rightarrow> bool" where
  "is_line_terminator c = (c = 10 \<or> c = 13 \<or> c = 8232 \<or> c = 8233)"

definition is_space :: "nat \<Rightarrow> bool" where
  "is_space c = (c \<in> set [9, 10, 11, 12, 13, 32, 160, 5760, 8232, 8233, 8239, 8287, 12288, 65279]
                 \<or> (8192 \<le> c \<and> c \<le> 8202))"

definition is_word_char :: "nat \<Rightarrow> bool" where
  "is_word_char c = ((48 \<le> c \<and> c \<le> 57) \<or> (65 \<le> c \<and> c \<le> 90) \<or> (97 \<le> c \<and> c \<le> 122) \<or> c = 95)"

definition trim :: "jstring \<Rightarrow> jstring" where
  "trim s = rev (dropWhile is_space (rev (dropWhile is_space s)))"

text \<open>Decimal form of an integer, as \<open>String(n)\<close> prints one.\<close>

definition digit_char :: "nat \<Rightarrow> nat" where
  "digit_char d = 48 + d"

fun show_nat :: "nat \<Rightarrow> jstring" where
  "show_nat n = (if n < 10 then [digit_char n] else show_nat (n div 10) @ [digit_char (n mod 10)])"

declare show_nat.simps [simp del]

definition show_int :: "int \<Rightarrow> jstring" where
  "show_int i = (if i < 0 then 45 # show_nat (nat (- i)) else show_nat (nat i))"


section \<open>Regular expressions\<close>

text \<open>
  The patterns of the program are regular expression literals of the host. They are kept as
  syntax trees and run by a matcher that follows the host's semantics of
  \<open>RegExp.prototype.test\<close>: \<open>rx_ends ic s r i\<close> lists the positions where a match of \<open>r\<close>
  that starts at position \<open>i\<close> of \<open>s\<close> can end, and \<open>rx_test\<close> asks for a match
  starting anywhere. \<open>ic\<close> is the \<open>i\<close> flag. Every pattern of the program is written in
  ASCII, and for those the canonicalisation below is the host's.
\<close>

datatype rx =
    RChar nat
  | RClass bool "(nat \<times> nat) list"
  | RDot
  | RSpace
  | RWord
  | RBoundary
  | RStart
  | REnd
  | REps
  | RSeq rx rx
  | RAlt rx rx
  | RStar rx

definition canonicalize :: "bool \<Rightarrow> nat \<Rightarrow> nat" where
  "canonicalize ic c = (if ic \<and> 97 \<le> c \<and> c \<le> 122 then c - 32 else c)"

definition in_ranges :: "(nat \<times> nat) list \<Rightarrow> nat \<Rightarrow> bool" where
  "in_ranges rs c = list_ex (\<lambda>(lo, hi). lo \<le> c \<and> c \<le> hi) rs"

definition class_has :: "bool \<Rightarrow> (nat \<times> nat) list \<Rightarrow> nat \<Rightarrow> bool" where
  "class_has ic rs c =
     (in_ranges rs c \<or>
      (ic \<and> ((97 \<le> c \<and> c \<le> 122 \<and> in_ranges rs (c - 32)) \<or>
             (65 \<le> c \<and> c \<le> 90 \<and> in_ranges rs (c + 32)))))"

definition word_before :: "jstring \<Rightarrow> nat \<Rightarrow> bool" where
  "word_before s i = (0 < i \<and> i \<le> length s \<and> is_word_char (s ! (i - 1)))"

definition word_at :: "jstring \<Rightarrow> nat \<Rightarrow> bool" where
  "word_at s i = (i < length s \<and> is_word_char (s ! i))"

fun star_from :: "(nat \<Rightarrow> nat list) \<Rightarrow> nat \<Rightarrow> nat \<Rightarrow> nat list" where
  "star_from f 0 i = [i]"
| "star_from f (Suc n) i = i # concat (map (\<lambda>j. star_from f n j) (filter (\<lambda>j. i < j) (f i)))"

fun rx_ends :: "bool \<Rightarrow> jstring \<Rightarrow> rx \<Rightarrow> nat \<Rightarrow> nat list" where
  "rx_ends ic s (RChar c) i =
     (if i < length s \<and> canonicalize ic (s ! i) = canonicalize ic c then [Suc i] else [])"
| "rx_ends ic s (RClass neg rs) i =
     (if i < length s \<and> (class_has ic rs (s ! i) \<noteq> neg) then [Suc i] else [])"
| "rx_ends ic s RDot i = (if i < length s \<and> \<not> is_line_terminator (s ! i) then [Suc i] else [])"
| "rx_ends ic s RSpace i = (if i < length s \<and> is_space (s ! i) then [Suc i] else [])"
| "rx_ends ic s RWord i = (if i < length s \<and> is_word_char (s ! i) then [Suc i] else [])"
| "rx_ends ic s RBoundary i = (if word_before s i \<noteq> word_at s i then [i] else [])"
| "rx_ends ic s RStart i = (if i = 0 then [i] else [])"
| "rx_ends ic s REnd i = (if i = length s then [i] else [])"
| "rx_ends ic s REps i = [i]"
| "rx_ends ic s (RSeq a b) i = concat (map (\<lambda>j. rx_ends ic s b j) (rx_ends ic s a i))"
| "rx_ends ic s (RAlt a b) i = rx_ends ic s a i @ rx_ends ic s b i"
| "rx_ends ic s (RStar a) i = star_from (\<lambda>j. rx_ends ic s a j) (length s - i) i"

definition rx_test :: "bool \<Rightarrow> rx \<Rightarrow> jstring \<Rightarrow> bool" where
  "rx_test ic r s = list_ex (\<lambda>i. rx_ends ic s r i \<noteq> []) [0..<Suc (length s)]"

text \<open>Pattern syntax: a run of literal characters, a sequence, \<open>r+\<close>, \<open>r{n}\<close>, alternatives.\<close>

definition rx_seq :: "rx list \<Rightarrow> rx" where
  "rx_seq rs = foldr RSeq rs REps"

definition rx_lits :: "jstring \<Rightarrow> rx" where
  "rx_lits w = rx_seq (map RChar w)"

definition rx_plus :: "rx \<Rightarrow> rx" where
  "rx_plus r = RSeq r (RStar r)"

definition rx_times :: "nat \<Rightarrow> rx \<Rightarrow> rx" where
  "rx_times n r = rx_seq (replicate n r)"

definition rx_alts :: "rx list \<Rightarrow> rx" where
  "rx_alts rs = foldr RAlt (butlast rs) (last rs)"

definition rx_hex :: rx where
  "rx_hex = RClass False [(48, 57), (97, 102), (65, 70)]"


section \<open>Errors\<close>

text \<open>
  The exception classes of \<open>types.ts\<close>. An exception is a value; a function that can throw
  returns \<open>its_error + 'a\<close>. \<open>JsError\<close> is the host's plain \<open>Error\<close> with its message,
  \<open>HostError\<close> any other exception of the host (a \<open>TypeError\<close>, a \<open>SyntaxError\<close>, a
  failure of the network) with its name and its message; the message is the host's.
\<close>

datatype its_error =
    ITSSecurityError jstring jstring jstring "jstring option"
  | ITSValidationError jstring "jstring list" "jstring list"
  | ITSCompilationError jstring "jstring option" "jstring option" "jstring option"
  | ITSVariableError jstring "jstring option" "jstring list option"
  | JsError jstring
  | HostError jstring jstring

fun error_message :: "its_error \<Rightarrow> jstring" where
  "error_message (ITSSecurityError m _ _ _) = m"
| "error_message (ITSValidationError m _ _) = m"
| "error_message (ITSCompilationError m _ _ _) = m"
| "error_message (ITSVariableError m _ _) = m"
| "error_message (JsError m) = m"
| "error_message (HostError name m) = m"

text \<open>The printed form of an exception inside a template literal: its name, then its message.\<close>

fun error_to_string :: "its_error \<Rightarrow> jstring" where
  "error_to_string (ITSSecurityError m _ _ _) = str ''ITSSecurityError: '' @ m"
| "error_to_string (ITSValidationError m _ _) = str ''ITSValidationError: '' @ m"
| "error_to_string (ITSCompilationError m _ _ _) = str ''ITSCompilationError: '' @ m"
| "error_to_string (ITSVariableError m _ _) = str ''ITSVariableError: '' @ m"
| "error_to_string (JsError m) = str ''Error: '' @ m"
| "error_to_string (HostError name m) = (if m = [] then name else name @ str '': '' @ m)"

fun is_security_error :: "its_error \<Rightarrow> bool" where
  "is_security_error (ITSSecurityError _ _ _ _) = True"
| "is_security_error _ = False"


section \<open>SecurityValidator: the text deny-list\<close>

text \<open>The twelve patterns of \<open>validateTextContent\<close>, all with the flags \<open>gi\<close>.\<close>

definition textPatterns :: "rx list" where
  "textPatterns =
    [ rx_seq [rx_lits (str ''<script''), RStar (RClass True [(62, 62)]), RChar 62, RStar RDot,
              rx_lits (str ''</script>'')],
      rx_seq [rx_lits (str ''javascript''), RStar RSpace, RChar 58],
      rx_seq [rx_lits (str ''data''), RStar RSpace, RChar 58, RStar RSpace, rx_lits (str ''text/html'')],
      rx_seq [rx_lits (str ''eval''), RStar RSpace, RChar 40],
      rx_seq [rx_lits (str ''Function''), RStar RSpace, RChar 40],
      rx_seq [rx_lits (str ''setTimeout''), RStar RSpace, RChar 40],
      rx_seq [rx_lits (str ''setInterval''), RStar RSpace, RChar 40],
      rx_seq [rx_lits (str ''document.''), rx_plus RWord],
      rx_seq [rx_lits (str ''window.''), rx_plus RWord],
      rx_seq [RChar 92, RChar 120, rx_times 2 rx_hex],
      rx_seq [RChar 92, RChar 117, rx_times 4 rx_hex],
      rx_seq [RChar 37, rx_times 2 rx_hex] ]"

definition validateTextContent :: "jstring \<Rightarrow> its_error + unit" where
  "validateTextContent text =
     (if list_ex (\<lambda>pattern. rx_test True pattern text) textPatterns
      then Inl (ITSSecurityError (str ''Malicious content detected in text'')
                  (str ''content_validation'') (str ''MALICIOUS_CONTENT'') (Some (take 100 text)))
      else Inr ())"








section \<open>Values\<close>

text \<open>
  The values that templates, variables and schemas hold. \<open>JObj proto props\<close> is an object:
  its prototype, and its own properties in the order in which the host enumerates them,
  each with its \<open>enumerable\<close> flag. \<open>JObjectPrototype\<close> is the object
  \<open>Object.prototype\<close>, the prototype of every object that a literal or \<open>JSON.parse\<close>
  creates; a prototype \<open>JNull\<close> ends the chain. \<open>JFun\<close> is a function, known by its
  name. Numbers are the integers and \<open>NaN\<close>: a fraction, an infinity and the negative
  zero are not values of the model, and an integer beyond \<open>2^53\<close> stands for the double
  nearest to it.
\<close>

datatype jsval =
    JUndefined
  | JNull
  | JBool bool
  | JNum int
  | JNaN
  | JStr jstring
  | JArr "jsval list"
  | JObj jsval "(jstring \<times> bool \<times> jsval) list"
  | JFun jstring
  | JObjectPrototype

type_synonym props = "(jstring \<times> bool \<times> jsval) list"

definition plain :: "(jstring \<times> jsval) list \<Rightarrow> jsval" where
  "plain kvs = JObj JObjectPrototype (map (\<lambda>(k, v). (k, True, v)) kvs)"

definition object_prototype_names :: "jstring list" where
  "object_prototype_names =
     [str ''constructor'', str ''__defineGetter__'', str ''__defineSetter__'', str ''hasOwnProperty'',
      str ''__lookupGetter__'', str ''__lookupSetter__'', str ''isPrototypeOf'',
      str ''propertyIsEnumerable'', str ''toString'', str ''valueOf'', str ''__proto__'',
      str ''toLocaleString'']"

fun own_lookup :: "props \<Rightarrow> jstring \<Rightarrow> jsval option" where
  "own_lookup [] k = None"
| "own_lookup ((k', e, v) # ps) k = (if k' = k then Some v else own_lookup ps k)"

fun typeof :: "jsval \<Rightarrow> jstring" where
  "typeof JUndefined = str ''undefined''"
| "typeof (JBool _) = str ''boolean''"
| "typeof (JNum _) = str ''number''"
| "typeof JNaN = str ''number''"
| "typeof (JStr _) = str ''string''"
| "typeof (JFun _) = str ''function''"
| "typeof _ = str ''object''"

fun string_of :: "jsval \<Rightarrow> jstring" where
  "string_of (JStr s) = s"
| "string_of _ = []"

fun isArray :: "jsval \<Rightarrow> bool" where
  "isArray (JArr _) = True"
| "isArray _ = False"

fun truthy :: "jsval \<Rightarrow> bool" where
  "truthy JUndefined = False"
| "truthy JNull = False"
| "truthy (JBool b) = b"
| "truthy (JNum n) = (n \<noteq> 0)"
| "truthy JNaN = False"
| "truthy (JStr s) = (s \<noteq> [])"
| "truthy _ = True"

text \<open>A property key that is an array index: a decimal numeral without leading zeros.\<close>

definition is_digit :: "nat \<Rightarrow> bool" where
  "is_digit c = (48 \<le> c \<and> c \<le> 57)"

definition digits_value :: "jstring \<Rightarrow> nat" where
  "digits_value ds = foldl (\<lambda>a c. 10 * a + (c - 48)) 0 ds"

definition array_index :: "jstring \<Rightarrow> nat option" where
  "array_index k =
     (if k \<noteq> [] \<and> list_all is_digit k \<and> (hd k \<noteq> 48 \<or> length k = 1) \<and> digits_value k < 4294967295
      then Some (digits_value k) else None)"

text \<open>\<open>Object.entries\<close>, \<open>Object.keys\<close> and \<open>Object.getOwnPropertyNames\<close>.\<close>

fun entries :: "jsval \<Rightarrow> (jstring \<times> jsval) list" where
  "entries (JObj proto ps) = map (\<lambda>(k, e, v). (k, v)) (filter (\<lambda>(k, e, v). e) ps)"
| "entries (JArr vs) = zip (map show_nat [0..<length vs]) vs"
| "entries (JStr s) = zip (map show_nat [0..<length s]) (map (\<lambda>c. JStr [c]) s)"
| "entries _ = []"

definition keys :: "jsval \<Rightarrow> jstring list" where
  "keys v = map fst (entries v)"

fun getOwnPropertyNames :: "jsval \<Rightarrow> jstring list" where
  "getOwnPropertyNames (JObj proto ps) = map fst ps"
| "getOwnPropertyNames (JArr vs) = map show_nat [0..<length vs] @ [str ''length'']"
| "getOwnPropertyNames (JStr s) = map show_nat [0..<length s] @ [str ''length'']"
| "getOwnPropertyNames JObjectPrototype = object_prototype_names"
| "getOwnPropertyNames _ = []"

fun hasOwnProperty :: "jsval \<Rightarrow> jstring \<Rightarrow> bool" where
  "hasOwnProperty v k = (k \<in> set (getOwnPropertyNames v))"


section \<open>Expressions, templates and configuration\<close>

text \<open>The syntax trees that the expression parser returns.\<close>

datatype ast =
    Literal jsval
  | Identifier jstring
  | MemberExpression bool ast ast
  | BinaryExpression jstring ast ast
  | LogicalExpression jstring ast ast
  | UnaryExpression jstring ast
  | ArrayExpression "ast list"
  | OtherExpression jstring
  | NoNode

text \<open>Content elements: \<open>id\<close> first, then the fields of each kind.\<close>

datatype ContentElement =
    TextElement "jstring option" jstring
  | PlaceholderElement "jstring option" jstring jsval
  | ConditionalElement "jstring option" jstring "ContentElement list" "ContentElement list option"

fun is_conditional :: "ContentElement \<Rightarrow> bool" where
  "is_conditional (ConditionalElement _ _ _ _) = True"
| "is_conditional _ = False"

record CompilerConfig =
  systemPrompt :: "jstring option"
  userContentWrapper :: "jstring option"
  instructionWrapper :: "jstring option"
  processingInstructions :: "jstring list option"

record ITSTemplate =
  version :: jstring
  description :: "jstring option"
  extends :: "jstring list option"
  variables :: "(jsval \<times> props) option"
  customInstructionTypes :: "jsval option"
  content :: "ContentElement list"
  compilerConfig :: "CompilerConfig option"

datatype OverrideType = CUSTOM | SCHEMA_EXTENSION | STANDARD

record TypeOverride =
  typeName :: jstring
  overrideSource :: jstring
  overriddenSource :: jsval
  overrideType :: OverrideType

record SecurityConfig =
  allowHttp :: bool
  blockLocalhost :: bool
  blockPrivateNetworks :: bool
  domainAllowlist :: "jstring list option"
  maxTemplateSize :: int
  maxContentElements :: int
  maxNestingDepth :: int
  maxExpressionLength :: int
  requestTimeout :: int

definition DEFAULT_SECURITY_CONFIG :: SecurityConfig where
  "DEFAULT_SECURITY_CONFIG =
     \<lparr> allowHttp = False, blockLocalhost = True, blockPrivateNetworks = True,
       domainAllowlist = None, maxTemplateSize = 1024 * 1024, maxContentElements = 1000,
       maxNestingDepth = 10, maxExpressionLength = 500, requestTimeout = 10000 \<rparr>"

definition DEVELOPMENT_SECURITY_CONFIG :: SecurityConfig where
  "DEVELOPMENT_SECURITY_CONFIG =
     \<lparr> allowHttp = True, blockLocalhost = False, blockPrivateNetworks = False,
       domainAllowlist = None, maxTemplateSize = 5 * 1024 * 1024, maxContentElements = 2000,
       maxNestingDepth = 15, maxExpressionLength = 1000, requestTimeout = 30000 \<rparr>"

record ValidationResult =
  isValid :: bool
  errors :: "jstring list"
  warnings :: "jstring list"
  securityIssues :: "jstring list"
  validationTime :: int

record CompilationResult =
  prompt :: jstring
  result_template :: ITSTemplate
  result_variables :: jsval
  overrides :: "TypeOverride list"
  result_warnings :: "jstring list"
  compilationTime :: int


section \<open>The host\<close>

text \<open>
  What the program takes from its runtime and its libraries, and what the network and the
  clock answer. None of it is code of the program, so it is a parameter of the model:
  \<^item> \<open>jsep\<close>: the expression parser (\<open>Inl\<close>: the printed form of the error it throws);
  \<^item> \<open>url_parse\<close>: \<open>new URL(s)\<close> (\<open>None\<close>: it throws), \<open>url_resolve url base\<close>:
    \<open>new URL(url, base).toString()\<close>;
  \<^item> \<open>json_template\<close>, \<open>json_content\<close>: \<open>JSON.stringify\<close>; \<open>json_parse\<close>: \<open>JSON.parse\<close>;
  \<^item> \<open>compare op a b\<close>: the comparison operators on any two values, \<open>to_number\<close>:
    the conversion of a string or an object to a number, \<open>obj_to_string\<close>: the conversion of
    an array, an object or a function to a string (\<open>None\<close>: a \<open>TypeError\<close>),
    \<open>number_string n\<close>: \<open>String(x)\<close> for the number \<open>x\<close> that the host makes of an
    integer \<open>n\<close> beyond its safe integers (the digits of the nearest double, the exponent
    form from \<open>1e+21\<close> on, \<open>Infinity\<close>);
  \<^item> \<open>error_text op v\<close>: the message of the exception that the host throws when the
    operation \<open>op\<close> fails on the value \<open>v\<close>;
  \<^item> \<open>proto_member v k\<close>: the property \<open>k\<close> that a value other than a plain object (an
    array, a string, a number, a boolean, a function) finds on its builtin prototype chain;
  \<^item> \<open>fetch n url\<close>: the answer of the network to the \<open>n\<close>-th request of the process
    (\<open>Failed\<close>: an exception, with its name and its message);
  \<^item> \<open>clock n\<close>: the \<open>n\<close>-th reading of \<open>Date.now()\<close>.
\<close>

record parsed_url =
  protocol :: jstring
  hostname :: jstring
  pathname :: jstring

record http_response =
  ok :: bool
  status :: int
  statusText :: jstring
  content_type :: "jstring option"
  content_length :: "jstring option"
  body :: jstring

datatype fetch_result = Responded http_response | Aborted | Failed jstring jstring

record host =
  jsep :: "jstring \<Rightarrow> jstring + ast"
  url_parse :: "jstring \<Rightarrow> parsed_url option"
  url_resolve :: "jstring \<Rightarrow> jstring \<Rightarrow> jstring option"
  json_template :: "ITSTemplate \<Rightarrow> jstring"
  json_content :: "ContentElement list \<Rightarrow> jstring"
  json_parse :: "jstring \<Rightarrow> jsval option"
  compare :: "jstring \<Rightarrow> jsval \<Rightarrow> jsval \<Rightarrow> bool option"
  to_number :: "jsval \<Rightarrow> jsval option"
  obj_to_string :: "jsval \<Rightarrow> jstring option"
  number_string :: "int \<Rightarrow> jstring"
  error_text :: "jstring \<Rightarrow> jsval \<Rightarrow> jstring"
  proto_member :: "jsval \<Rightarrow> jstring \<Rightarrow> jsval option"
  fetch :: "nat \<Rightarrow> jstring \<Rightarrow> fetch_result"
  clock :: "nat \<Rightarrow> int"


section \<open>Properties of values\<close>

text \<open>
  \<open>has_property h v k\<close> is \<open>k in v\<close> and \<open>get_property h v k\<close> is \<open>v[k]\<close>: the own
  properties first, then the prototype chain. The accessor \<open>__proto__\<close> of
  \<open>Object.prototype\<close> answers with the prototype of the object that was asked.
\<close>

fun has_property :: "host \<Rightarrow> jsval \<Rightarrow> jstring \<Rightarrow> bool" where
  "has_property h (JObj proto ps) k = (own_lookup ps k \<noteq> None \<or> has_property h proto k)"
| "has_property h JObjectPrototype k = (k \<in> set object_prototype_names)"
| "has_property h (JArr vs) k =
     ((case array_index k of Some i \<Rightarrow> i < length vs | None \<Rightarrow> False) \<or> k = str ''length''
      \<or> proto_member h (JArr vs) k \<noteq> None)"
| "has_property h (JFun f) k = (proto_member h (JFun f) k \<noteq> None)"
| "has_property h _ k = False"

fun chain_get :: "host \<Rightarrow> jsval \<Rightarrow> jsval \<Rightarrow> jstring \<Rightarrow> jsval" where
  "chain_get h rp (JObj proto ps) k =
     (case own_lookup ps k of Some v \<Rightarrow> v | None \<Rightarrow> chain_get h rp proto k)"
| "chain_get h rp JObjectPrototype k =
     (if k = str ''__proto__'' then rp
      else if k \<in> set object_prototype_names then JFun k else JUndefined)"
| "chain_get h rp (JArr vs) k =
     (case array_index k of
        Some i \<Rightarrow> (if i < length vs then vs ! i
                   else (case proto_member h (JArr vs) k of Some v \<Rightarrow> v | None \<Rightarrow> JUndefined))
      | None \<Rightarrow> (if k = str ''length'' then JNum (int (length vs))
                 else (case proto_member h (JArr vs) k of Some v \<Rightarrow> v | None \<Rightarrow> JUndefined)))"
| "chain_get h rp (JStr s) k =
     (case array_index k of
        Some i \<Rightarrow> (if i < length s then JStr [s ! i]
                   else (case proto_member h (JStr s) k of Some v \<Rightarrow> v | None \<Rightarrow> JUndefined))
      | None \<Rightarrow> (if k = str ''length'' then JNum (int (length s))
                 else (case proto_member h (JStr s) k of Some v \<Rightarrow> v | None \<Rightarrow> JUndefined)))"
| "chain_get h rp JUndefined k = JUndefined"
| "chain_get h rp JNull k = JUndefined"
| "chain_get h rp v k = (case proto_member h v k of Some x \<Rightarrow> x | None \<Rightarrow> JUndefined)"

fun prototype_of :: "jsval \<Rightarrow> jsval" where
  "prototype_of (JObj proto ps) = proto"
| "prototype_of _ = JNull"

definition get_property :: "host \<Rightarrow> jsval \<Rightarrow> jstring \<Rightarrow> jsval" where
  "get_property h v k = chain_get h (prototype_of v) v k"

text \<open>
  Writing a property. \<open>insert_own\<close> keeps the host's order of own properties: array
  indices in ascending order first, then the other keys in the order of their creation.
  \<open>define_property\<close> is the definition of an own data property, as the spread syntax
  does it; \<open>set_property\<close> is the assignment \<open>obj[k] = v\<close>, which on the key
  \<open>__proto__\<close> reaches the setter of \<open>Object.prototype\<close> and replaces the prototype.
\<close>

fun insert_own :: "jstring \<Rightarrow> jsval \<Rightarrow> props \<Rightarrow> props" where
  "insert_own k v [] = [(k, True, v)]"
| "insert_own k v ((k', e', v') # ps) =
     (case array_index k of
        None \<Rightarrow> (k', e', v') # insert_own k v ps
      | Some i \<Rightarrow> (case array_index k' of
                    None \<Rightarrow> (k, True, v) # (k', e', v') # ps
                  | Some i' \<Rightarrow> (if i < i' then (k, True, v) # (k', e', v') # ps
                                else (k', e', v') # insert_own k v ps)))"

fun define_own :: "jstring \<Rightarrow> jsval \<Rightarrow> props \<Rightarrow> props" where
  "define_own k v ps =
     (if own_lookup ps k \<noteq> None
      then map (\<lambda>(k', e', v'). if k' = k then (k', True, v) else (k', e', v')) ps
      else insert_own k v ps)"

fun assign_own :: "jstring \<Rightarrow> jsval \<Rightarrow> props \<Rightarrow> props" where
  "assign_own k v ps =
     (if own_lookup ps k \<noteq> None
      then map (\<lambda>(k', e', v'). if k' = k then (k', e', v) else (k', e', v')) ps
      else insert_own k v ps)"

fun define_property :: "jsval \<Rightarrow> jstring \<Rightarrow> jsval \<Rightarrow> jsval" where
  "define_property (JObj proto ps) k v = JObj proto (define_own k v ps)"
| "define_property obj k v = obj"

fun finds_proto_accessor :: "jsval \<Rightarrow> bool" where
  "finds_proto_accessor (JObj proto ps) =
     (own_lookup ps (str ''__proto__'') = None \<and> finds_proto_accessor proto)"
| "finds_proto_accessor JObjectPrototype = True"
| "finds_proto_accessor _ = False"

fun set_property :: "jsval \<Rightarrow> jstring \<Rightarrow> jsval \<Rightarrow> jsval" where
  "set_property (JObj proto ps) k v =
     (if k = str ''__proto__'' \<and> finds_proto_accessor (JObj proto ps)
      then (if typeof v = str ''object'' \<or> typeof v = str ''function'' then JObj v ps
            else JObj proto ps)
      else JObj proto (assign_own k v ps))"
| "set_property obj k v = obj"

text \<open>The spread \<open>{ ...a, ...b }\<close>: a new plain object with the enumerable own properties.\<close>

definition spread_into :: "jsval \<Rightarrow> jsval \<Rightarrow> jsval" where
  "spread_into target src = foldl (\<lambda>obj (k, v). define_property obj k v) target (entries src)"

definition spread2 :: "jsval \<Rightarrow> jsval \<Rightarrow> jsval" where
  "spread2 a b = spread_into (spread_into (JObj JObjectPrototype []) a) b"

text \<open>
  \<open>String(n)\<close> of a number, also inside a template literal. The numbers of the model are
  integers. Up to \<open>2^53\<close> in absolute value the host holds each of them as it is and prints
  its decimal digits; beyond, the host holds the nearest double, and the text is the host's.
\<close>

definition number_text :: "host \<Rightarrow> int \<Rightarrow> jstring" where
  "number_text h n = (if \<bar>n\<bar> < 9007199254740992 then show_int n else number_string h n)"

text \<open>\<open>String(v)\<close> and the conversions behind the unary operators.\<close>

fun js_to_string :: "host \<Rightarrow> jsval \<Rightarrow> jstring option" where
  "js_to_string h JUndefined = Some (str ''undefined'')"
| "js_to_string h JNull = Some (str ''null'')"
| "js_to_string h (JBool b) = Some (if b then str ''true'' else str ''false'')"
| "js_to_string h (JNum n) = Some (number_text h n)"
| "js_to_string h JNaN = Some (str ''NaN'')"
| "js_to_string h (JStr s) = Some s"
| "js_to_string h v = obj_to_string h v"

fun js_to_number :: "host \<Rightarrow> jsval \<Rightarrow> jsval option" where
  "js_to_number h (JNum n) = Some (JNum n)"
| "js_to_number h JNaN = Some JNaN"
| "js_to_number h JUndefined = Some JNaN"
| "js_to_number h JNull = Some (JNum 0)"
| "js_to_number h (JBool b) = Some (JNum (if b then 1 else 0))"
| "js_to_number h v = to_number h v"

fun negate :: "jsval \<Rightarrow> jsval" where
  "negate (JNum n) = JNum (- n)"
| "negate v = v"


section \<open>SecurityValidator\<close>

text \<open>
  \<open>toLowerCase\<close> on the code units whose lower case is an ASCII letter (the capital
  letters and the Kelvin sign); the program compares its result with ASCII words only,
  and there it agrees with the host.
\<close>

definition toLowerCase :: "jstring \<Rightarrow> jstring" where
  "toLowerCase s = map (\<lambda>c. if 65 \<le> c \<and> c \<le> 90 then c + 32 else if c = 8490 then 107 else c) s"

text \<open>The patterns of \<open>validateConditionalExpression\<close>, without flags.\<close>

definition expressionPatterns :: "rx list" where
  "expressionPatterns =
    [ rx_seq [rx_lits (str ''__''), rx_plus RWord, rx_lits (str ''__'')],
      rx_seq [rx_lits (str ''exec''), RStar RSpace, RChar 40],
      rx_seq [rx_lits (str ''eval''), RStar RSpace, RChar 40],
      rx_seq [rx_lits (str ''import''), rx_plus RSpace],
      rx_seq [rx_lits (str ''open''), RStar RSpace, RChar 40],
      rx_lits (str ''subprocess''),
      rx_lits (str ''os.''),
      rx_lits (str ''sys.''),
      rx_seq [rx_lits (str ''globals''), RStar RSpace, RChar 40],
      rx_seq [rx_lits (str ''locals''), RStar RSpace, RChar 40],
      rx_seq [rx_lits (str ''getattr''), RStar RSpace, RChar 40],
      rx_seq [rx_lits (str ''setattr''), RStar RSpace, RChar 40],
      rx_seq [rx_lits (str ''hasattr''), RStar RSpace, RChar 40],
      rx_seq [rx_lits (str ''delattr''), RStar RSpace, RChar 40] ]"

definition validateConditionalExpression :: "SecurityConfig \<Rightarrow> jstring \<Rightarrow> its_error + unit" where
  "validateConditionalExpression cfg expression =
     (if int (length expression) > maxExpressionLength cfg
      then Inl (ITSSecurityError
             (str ''Expression too long: '' @ show_nat (length expression) @ str '' characters'')
             (str ''expression_length'') (str ''SIZE_LIMIT_EXCEEDED'') None)
      else if list_ex (\<lambda>pattern. rx_test False pattern expression) expressionPatterns
      then Inl (ITSSecurityError (str ''Dangerous pattern in conditional expression'')
             (str ''expression_validation'') (str ''MALICIOUS_CONTENT'') (Some (take 100 expression)))
      else Inr ())"

text \<open>
  \<open>validatePlaceholderConfig\<close>: the loop over \<open>Object.entries(config)\<close> and its body.
  \<open>Object.entries\<close> of \<open>null\<close> or \<open>undefined\<close> is a \<open>TypeError\<close> of the host.
\<close>

fun validatePlaceholderConfig :: "host \<Rightarrow> jsval \<Rightarrow> its_error + unit"
  and placeholder_props :: "host \<Rightarrow> props \<Rightarrow> its_error + unit"
  and placeholder_items :: "host \<Rightarrow> jsval list \<Rightarrow> its_error + unit"
  and placeholder_value :: "host \<Rightarrow> jsval \<Rightarrow> its_error + unit"
where
  "validatePlaceholderConfig h (JObj proto ps) = placeholder_props h ps"
| "validatePlaceholderConfig h (JArr vs) = placeholder_items h vs"
| "validatePlaceholderConfig h (JStr s) =
     (case find (\<lambda>c. validateTextContent [c] \<noteq> Inr ()) s of
        Some c \<Rightarrow> validateTextContent [c] | None \<Rightarrow> Inr ())"
| "validatePlaceholderConfig h JNull =
     Inl (HostError (str ''TypeError'') (error_text h (str ''Object.entries'') JNull))"
| "validatePlaceholderConfig h JUndefined =
     Inl (HostError (str ''TypeError'') (error_text h (str ''Object.entries'') JUndefined))"
| "validatePlaceholderConfig h _ = Inr ()"
| "placeholder_props h [] = Inr ()"
| "placeholder_props h ((k, e, v) # ps) =
     (if e then (case placeholder_value h v of Inl err \<Rightarrow> Inl err | Inr _ \<Rightarrow> placeholder_props h ps)
      else placeholder_props h ps)"
| "placeholder_items h [] = Inr ()"
| "placeholder_items h (v # vs) =
     (case placeholder_value h v of Inl err \<Rightarrow> Inl err | Inr _ \<Rightarrow> placeholder_items h vs)"
| "placeholder_value h (JStr s) = validateTextContent s"
| "placeholder_value h (JObj proto ps) = placeholder_props h ps"
| "placeholder_value h (JArr vs) = placeholder_items h vs"
| "placeholder_value h _ = Inr ()"

definition dangerousNames :: "jstring list" where
  "dangerousNames =
     [str ''__proto__'', str ''constructor'', str ''prototype'', str ''__builtins__'',
      str ''__globals__'', str ''__locals__'', str ''__import__'', str ''exec'', str ''eval'',
      str ''compile'', str ''open'', str ''input'', str ''globals'', str ''locals'', str ''vars'',
      str ''dir'', str ''getattr'', str ''setattr'', str ''hasattr'', str ''delattr'',
      str ''function'', str ''this'', str ''window'', str ''document'', str ''global'',
      str ''process'']"

definition isDangerousVariableName :: "jstring \<Rightarrow> bool" where
  "isDangerousVariableName name =
     (toLowerCase name \<in> set dangerousNames \<or> startsWith name (str ''__''))"

definition dangerousProps :: "jstring list" where
  "dangerousProps = [str ''__proto__'', str ''constructor'', str ''prototype'']"

text \<open>
  \<open>validateVariables\<close>. \<open>check_own_names\<close> is its part between the depth check and the loop
  over the values: the prototype, the three dangerous own properties, the names of all own
  properties. \<open>validate_entries\<close> is the loop over \<open>Object.entries(variables)\<close>,
  \<open>validate_value\<close> its body for one value, \<open>validate_items\<close> the loop over an array; for
  an item that is an object the source calls itself on the one-property object
  \<open>{ [i]: item }\<close>, and \<open>validate_items\<close> writes that call out: the depth check, the checks
  of \<open>check_own_names\<close> on the one-property object, then the body of the loop for its one value.
\<close>

definition check_own_names :: "host \<Rightarrow> jsval \<Rightarrow> its_error + unit" where
  "check_own_names h vars =
     (let pv = get_property h vars (str ''__proto__'') in
      if truthy pv \<and> pv \<noteq> JObjectPrototype
      then Inl (ITSSecurityError (str ''Prototype pollution detected: __proto__ has been modified'')
             (str ''prototype_pollution'') (str ''MALICIOUS_CONTENT'') None)
      else (case find (hasOwnProperty vars) dangerousProps of
              Some prop \<Rightarrow> Inl (ITSSecurityError (str ''Dangerous property detected: '' @ prop)
                              (str ''dangerous_property'') (str ''MALICIOUS_CONTENT'') None)
            | None \<Rightarrow>
               (case find isDangerousVariableName (getOwnPropertyNames vars) of
                  Some key \<Rightarrow> Inl (ITSSecurityError (str ''Dangerous variable name: '' @ key)
                                 (str ''variable_name'') (str ''MALICIOUS_CONTENT'') None)
                | None \<Rightarrow> Inr ())))"

definition nesting_too_deep :: "jstring \<Rightarrow> its_error" where
  "nesting_too_deep path =
     ITSSecurityError (str ''Variable nesting too deep at '' @ path)
       (str ''variable_nesting'') (str ''SIZE_LIMIT_EXCEEDED'') None"

fun validate_entries :: "host \<Rightarrow> SecurityConfig \<Rightarrow> jstring \<Rightarrow> nat \<Rightarrow> props \<Rightarrow> its_error + unit"
  and validate_value :: "host \<Rightarrow> SecurityConfig \<Rightarrow> jstring \<Rightarrow> nat \<Rightarrow> jsval \<Rightarrow> its_error + unit"
  and validate_items :: "host \<Rightarrow> SecurityConfig \<Rightarrow> jstring \<Rightarrow> nat \<Rightarrow> nat \<Rightarrow> jsval list \<Rightarrow> its_error + unit"
where
  "validate_entries h cfg path depth [] = Inr ()"
| "validate_entries h cfg path depth ((key, e, v) # ps) =
     (if e
      then (case validate_value h cfg (if path \<noteq> [] then path @ str ''.'' @ key else key) depth v of
              Inl err \<Rightarrow> Inl err
            | Inr _ \<Rightarrow> validate_entries h cfg path depth ps)
      else validate_entries h cfg path depth ps)"
| "validate_value h cfg currentPath depth (JStr s) = validateTextContent s"
| "validate_value h cfg currentPath depth (JObj proto ps) =
     (if int (Suc depth) > maxNestingDepth cfg then Inl (nesting_too_deep currentPath)
      else (case check_own_names h (JObj proto ps) of
              Inl err \<Rightarrow> Inl err
            | Inr _ \<Rightarrow> validate_entries h cfg currentPath (Suc depth) ps))"
| "validate_value h cfg currentPath depth JObjectPrototype =
     (if int (Suc depth) > maxNestingDepth cfg then Inl (nesting_too_deep currentPath)
      else check_own_names h JObjectPrototype)"
| "validate_value h cfg currentPath depth (JArr vs) =
     (if length vs > 1000
      then Inl (ITSSecurityError
             (str ''Array too large at '' @ currentPath @ str '': '' @ show_nat (length vs) @ str '' items'')
             (str ''array_size'') (str ''SIZE_LIMIT_EXCEEDED'') None)
      else validate_items h cfg currentPath depth 0 vs)"
| "validate_value h cfg currentPath depth v = Inr ()"
| "validate_items h cfg currentPath depth i [] = Inr ()"
| "validate_items h cfg currentPath depth i (v # vs) =
     (case (if typeof v = str ''string'' then validateTextContent (string_of v)
            else if typeof v = str ''object'' \<and> v \<noteq> JNull
            then (if int (Suc depth) > maxNestingDepth cfg
                  then Inl (nesting_too_deep (currentPath @ str ''['' @ show_nat i @ str '']''))
                  else (case check_own_names h (JObj JObjectPrototype [(show_nat i, True, v)]) of
                          Inl err \<Rightarrow> Inl err
                        | Inr _ \<Rightarrow>
                            validate_value h cfg
                              (currentPath @ str ''['' @ show_nat i @ str '']'' @ str ''.'' @ show_nat i)
                              (Suc depth) v))
            else Inr ()) of
        Inl err \<Rightarrow> Inl err
      | Inr _ \<Rightarrow> validate_items h cfg currentPath depth (Suc i) vs)"

text \<open>The variables object is given by its prototype and its own properties.\<close>

definition validateVariables ::
  "host \<Rightarrow> SecurityConfig \<Rightarrow> jsval \<Rightarrow> props \<Rightarrow> jstring \<Rightarrow> nat \<Rightarrow> its_error + unit" where
  "validateVariables h cfg proto ps path depth =
     (if int depth > maxNestingDepth cfg then Inl (nesting_too_deep path)
      else (case check_own_names h (JObj proto ps) of
              Inl err \<Rightarrow> Inl err
            | Inr _ \<Rightarrow> validate_entries h cfg path depth ps))"

text \<open>\<open>validateSchemaUrl\<close> and the checks of the host name.\<close>

definition privateRanges :: "rx list" where
  "privateRanges =
    [ rx_seq [RStart, rx_lits (str ''10.'')],
      rx_seq [RStart, rx_lits (str ''172.''),
              rx_alts [RSeq (RChar 49) (RClass False [(54, 57)]),
                       RSeq (RChar 50) (RClass False [(48, 57)]),
                       RSeq (RChar 51) (RClass False [(48, 49)])],
              RChar 46],
      rx_seq [RStart, rx_lits (str ''192.168.'')],
      rx_seq [RStart, rx_lits (str ''169.254.'')] ]"

definition isPrivateNetwork :: "jstring \<Rightarrow> bool" where
  "isPrivateNetwork host_name = list_ex (\<lambda>range. rx_test False range host_name) privateRanges"

definition localhostVariants :: "jstring list" where
  "localhostVariants = [str ''localhost'', str ''127.0.0.1'', str ''0.0.0.0'', str ''::1'']"

definition validateHostname :: "SecurityConfig \<Rightarrow> jstring \<Rightarrow> its_error + unit" where
  "validateHostname cfg host_name =
     (if blockLocalhost cfg \<and> toLowerCase host_name \<in> set localhostVariants
      then Inl (ITSSecurityError (str ''Localhost access blocked: '' @ host_name)
             (str ''localhost_blocked'') (str ''SSRF_BLOCKED'') None)
      else if blockPrivateNetworks cfg \<and> isPrivateNetwork host_name
      then Inl (ITSSecurityError (str ''Private network access blocked: '' @ host_name)
             (str ''private_network_blocked'') (str ''SSRF_BLOCKED'') None)
      else Inr ())"

definition isDomainAllowed :: "SecurityConfig \<Rightarrow> jstring \<Rightarrow> bool" where
  "isDomainAllowed cfg host_name =
     (case domainAllowlist cfg of
        None \<Rightarrow> True
      | Some allowed \<Rightarrow>
          list_ex (\<lambda>allowedDomain. host_name = allowedDomain
                     \<or> endsWith host_name (str ''.'' @ allowedDomain)) allowed)"

definition dangerousProtocols :: "jstring list" where
  "dangerousProtocols =
     [str ''file:'', str ''ftp:'', str ''gopher:'', str ''ldap:'', str ''dict:'', str ''data:'']"

definition validateSchemaUrl :: "host \<Rightarrow> SecurityConfig \<Rightarrow> jstring \<Rightarrow> its_error + unit" where
  "validateSchemaUrl h cfg url =
     (case url_parse h url of
        None \<Rightarrow> Inl (ITSSecurityError (str ''Invalid URL: '' @ url)
                  (str ''url_validation'') (str ''SSRF_BLOCKED'') None)
      | Some parsedUrl \<Rightarrow>
         (if \<not> startsWith (protocol parsedUrl) (str ''https:'')
               \<and> (\<not> allowHttp cfg \<or> protocol parsedUrl \<noteq> str ''http:'')
          then Inl (ITSSecurityError (str ''Protocol not allowed: '' @ protocol parsedUrl)
                 (str ''url_protocol'') (str ''SSRF_BLOCKED'') None)
          else if protocol parsedUrl \<in> set dangerousProtocols
          then Inl (ITSSecurityError (str ''Dangerous protocol blocked: '' @ protocol parsedUrl)
                 (str ''url_protocol'') (str ''SSRF_BLOCKED'') None)
          else (case (if hostname parsedUrl \<noteq> [] then validateHostname cfg (hostname parsedUrl)
                      else Inr ()) of
                  Inl err \<Rightarrow> Inl err
                | Inr _ \<Rightarrow>
                   (if (case domainAllowlist cfg of Some allowed \<Rightarrow> allowed \<noteq> [] | None \<Rightarrow> False)
                         \<and> \<not> isDomainAllowed cfg (hostname parsedUrl)
                    then Inl (ITSSecurityError
                           (str ''Domain not in allowlist: '' @ hostname parsedUrl)
                           (str ''domain_allowlist'') (str ''SSRF_BLOCKED'') None)
                    else if includes_str (pathname parsedUrl) (str ''..'')
                    then Inl (ITSSecurityError (str ''Path traversal detected in URL'')
                           (str ''path_traversal'') (str ''SSRF_BLOCKED'') None)
                    else Inr ()))))"

text \<open>\<open>validateContent\<close> with its loop and the body of the loop, and \<open>validateTemplate\<close>.\<close>

fun validateContent :: "host \<Rightarrow> SecurityConfig \<Rightarrow> nat \<Rightarrow> ContentElement list \<Rightarrow> its_error + unit"
  and validate_elements :: "host \<Rightarrow> SecurityConfig \<Rightarrow> nat \<Rightarrow> ContentElement list \<Rightarrow> its_error + unit"
  and validate_element :: "host \<Rightarrow> SecurityConfig \<Rightarrow> nat \<Rightarrow> ContentElement \<Rightarrow> its_error + unit"
where
  "validateContent h cfg depth elements =
     (if int depth > maxNestingDepth cfg
      then Inl (ITSSecurityError (str ''Content nesting too deep: '' @ show_nat depth)
             (str ''nesting_depth'') (str ''SIZE_LIMIT_EXCEEDED'') None)
      else validate_elements h cfg depth elements)"
| "validate_elements h cfg depth [] = Inr ()"
| "validate_elements h cfg depth (element # rest) =
     (case validate_element h cfg depth element of
        Inl err \<Rightarrow> Inl err
      | Inr _ \<Rightarrow> validate_elements h cfg depth rest)"
| "validate_element h cfg depth (TextElement eid text) = validateTextContent text"
| "validate_element h cfg depth (ConditionalElement eid condition thens elses) =
     (case validateConditionalExpression cfg condition of
        Inl err \<Rightarrow> Inl err
      | Inr _ \<Rightarrow>
         (case validateContent h cfg (Suc depth) thens of
            Inl err \<Rightarrow> Inl err
          | Inr _ \<Rightarrow>
             (case elses of
                None \<Rightarrow> Inr ()
              | Some els \<Rightarrow> validateContent h cfg (Suc depth) els)))"
| "validate_element h cfg depth (PlaceholderElement eid instructionType config) =
     validatePlaceholderConfig h config"

fun validate_urls :: "host \<Rightarrow> SecurityConfig \<Rightarrow> jstring list \<Rightarrow> its_error + unit" where
  "validate_urls h cfg [] = Inr ()"
| "validate_urls h cfg (url # urls) =
     (case validateSchemaUrl h cfg url of Inl err \<Rightarrow> Inl err | Inr _ \<Rightarrow> validate_urls h cfg urls)"

definition validateTemplate :: "host \<Rightarrow> SecurityConfig \<Rightarrow> ITSTemplate \<Rightarrow> its_error + unit" where
  "validateTemplate h cfg t =
     (let templateStr = json_template h t in
      if int (length templateStr) > maxTemplateSize cfg
      then Inl (ITSSecurityError
             (str ''Template too large: '' @ show_nat (length templateStr) @ str '' bytes'')
             (str ''template_size'') (str ''SIZE_LIMIT_EXCEEDED'') None)
      else if int (length (content t)) > maxContentElements cfg
      then Inl (ITSSecurityError
             (str ''Too many content elements: '' @ show_nat (length (content t)))
             (str ''content_elements'') (str ''SIZE_LIMIT_EXCEEDED'') None)
      else (case validateContent h cfg 0 (content t) of
              Inl err \<Rightarrow> Inl err
            | Inr _ \<Rightarrow>
               (case (case variables t of
                        Some (proto, ps) \<Rightarrow> validateVariables h cfg proto ps [] 0
                      | None \<Rightarrow> Inr ()) of
                  Inl err \<Rightarrow> Inl err
                | Inr _ \<Rightarrow>
                   (case extends t of
                      Some urls \<Rightarrow> validate_urls h cfg urls
                    | None \<Rightarrow> Inr ()))))"


section \<open>ConditionalEvaluator\<close>

text \<open>The patterns of \<open>validateConditionSecurity\<close>, each with its \<open>i\<close> flag.\<close>

definition conditionPatterns :: "(bool \<times> rx) list" where
  "conditionPatterns =
    [ (True, rx_seq [RBoundary,
               rx_alts [rx_lits (str ''eval''), rx_lits (str ''exec''), rx_lits (str ''function''),
                        rx_lits (str ''Function''), rx_lits (str ''setTimeout''),
                        rx_lits (str ''setInterval'')],
               RStar RSpace, RChar 40]),
      (True, rx_seq [RBoundary,
               rx_alts [rx_lits (str ''import''), rx_lits (str ''require''), rx_lits (str ''global''),
                        rx_lits (str ''window''), rx_lits (str ''document''),
                        rx_lits (str ''process'')],
               RBoundary]),
      (False, rx_seq [rx_lits (str ''__''), rx_plus RWord, rx_lits (str ''__'')]),
      (False, rx_seq [RChar 46, RStar RSpace, rx_lits (str ''constructor''), RStar RSpace, RChar 46]),
      (False, rx_seq [RChar 46, RStar RSpace, rx_lits (str ''prototype''), RStar RSpace, RChar 46]),
      (False, rx_seq [RChar 46, RStar RSpace, rx_lits (str ''__proto__''), RStar RSpace, RChar 46]) ]"

definition validateConditionSecurity :: "int \<Rightarrow> jstring \<Rightarrow> its_error + unit" where
  "validateConditionSecurity maxLength condition =
     (if int (length condition) > maxLength
      then Inl (ITSSecurityError
             (str ''Condition too long: '' @ show_nat (length condition) @ str '' characters'')
             (str ''expression_length'') (str ''SIZE_LIMIT_EXCEEDED'') None)
      else if list_ex (\<lambda>(ic, pattern). rx_test ic pattern condition) conditionPatterns
      then Inl (ITSSecurityError (str ''Dangerous pattern detected in condition'')
             (str ''expression_validation'') (str ''MALICIOUS_CONTENT'') None)
      else Inr ())"

definition dangerousProperties :: "jstring list" where
  "dangerousProperties =
     [str ''constructor'', str ''prototype'', str ''__proto__'', str ''__defineGetter__'',
      str ''__defineSetter__'', str ''__lookupGetter__'', str ''__lookupSetter__'']"

definition index_out_of_bounds :: "host \<Rightarrow> int \<Rightarrow> its_error" where
  "index_out_of_bounds h n = JsError (str ''Array index '' @ number_text h n @ str '' out of bounds'')"

fun array_length :: "jsval \<Rightarrow> int" where
  "array_length (JArr vs) = int (length vs)"
| "array_length (JStr s) = int (length s)"
| "array_length _ = 0"

definition validatePropertyAccess :: "host \<Rightarrow> jsval \<Rightarrow> jsval \<Rightarrow> its_error + unit" where
  "validatePropertyAccess h object property =
     (if typeof property = str ''string'' \<and> string_of property \<in> set dangerousProperties
      then Inl (ITSSecurityError
             (str ''Access to dangerous property '' @ [39] @ string_of property @ [39] @ str '' is blocked'')
             (str ''property_access'') (str ''MALICIOUS_CONTENT'') None)
      else if typeof object = str ''function''
      then Inl (ITSSecurityError (str ''Property access on function objects is not allowed'')
             (str ''function_property_access'') (str ''MALICIOUS_CONTENT'') None)
      else if isArray object \<and> typeof property = str ''number''
      then (case property of
              JNum n \<Rightarrow>
                (if n < 0
                 then (let actualIndex = array_length object + n in
                       if actualIndex < 0 \<or> actualIndex \<ge> array_length object
                       then Inl (index_out_of_bounds h n) else Inr ())
                 else if n \<ge> array_length object then Inl (index_out_of_bounds h n)
                 else Inr ())
            | _ \<Rightarrow> Inr ())
      else Inr ())"

text \<open>The name of the property node of \<open>obj.prop\<close>, \<open>node.property.name\<close>.\<close>

fun node_name :: "ast \<Rightarrow> jsval" where
  "node_name (Identifier name) = JStr name"
| "node_name _ = JUndefined"

definition is_primitive :: "jsval \<Rightarrow> bool" where
  "is_primitive v = (v = JNull \<or> (typeof v \<noteq> str ''object'' \<and> typeof v \<noteq> str ''function''))"

definition comparison_operators :: "jstring list" where
  "comparison_operators =
     [str ''=='', str ''==='', str ''!='', str ''!=='', str ''<'', str ''<='', str ''>'', str ''>='']"

text \<open>
  The reading \<open>object[property]\<close> at the end of the member case, after the checks: the
  property is turned into a key and looked up.
\<close>

definition member_read :: "host \<Rightarrow> jsval \<Rightarrow> jsval \<Rightarrow> its_error + jsval" where
  "member_read h object property =
     (case js_to_string h property of
        None \<Rightarrow> Inl (HostError (str ''TypeError'') (error_text h (str ''String'') property))
      | Some key \<Rightarrow> Inr (get_property h object key))"

definition member_access :: "host \<Rightarrow> jsval \<Rightarrow> jsval \<Rightarrow> its_error + jsval" where
  "member_access h object property =
     (if property = JStr (str ''length'') \<and> (isArray object \<or> typeof object = str ''string'')
      then Inr (JNum (array_length object))
      else (case validatePropertyAccess h object property of
              Inl err \<Rightarrow> Inl err
            | Inr _ \<Rightarrow> member_read h object property))"

definition binary_result :: "host \<Rightarrow> jstring \<Rightarrow> jsval \<Rightarrow> jsval \<Rightarrow> its_error + jsval" where
  "binary_result h operator left right =
     (if operator \<in> set comparison_operators
      then (case compare h operator left right of
              None \<Rightarrow> Inl (HostError (str ''TypeError'') (error_text h operator (JArr [left, right])))
            | Some b \<Rightarrow> Inr (JBool b))
      else if operator = str ''&&'' then Inr (if truthy left then right else left)
      else if operator = str ''||'' then Inr (if truthy left then left else right)
      else Inl (JsError (str ''Unsupported binary operator: '' @ operator)))"

definition unary_result :: "host \<Rightarrow> jstring \<Rightarrow> jsval \<Rightarrow> its_error + jsval" where
  "unary_result h operator v =
     (if operator = str ''!'' then Inr (JBool (\<not> truthy v))
      else (case js_to_number h v of
              None \<Rightarrow> Inl (HostError (str ''TypeError'') (error_text h operator v))
            | Some n \<Rightarrow> Inr (if operator = str ''-'' then negate n else n)))"

fun evaluateASTNode :: "host \<Rightarrow> jsval \<Rightarrow> ast \<Rightarrow> its_error + jsval"
  and evaluate_elements :: "host \<Rightarrow> jsval \<Rightarrow> ast list \<Rightarrow> its_error + jsval list"
where
  "evaluateASTNode h vars NoNode = Inl (JsError (str ''Invalid AST node''))"
| "evaluateASTNode h vars (Literal v) = Inr v"
| "evaluateASTNode h vars (Identifier name) =
     (if is_primitive vars
      then Inl (HostError (str ''TypeError'') (error_text h (str ''in'') (JArr [JStr name, vars])))
      else if \<not> has_property h vars name
      then Inl (JsError (str ''Variable '' @ [39] @ name @ [39] @ str '' is not defined''))
      else Inr (get_property h vars name))"
| "evaluateASTNode h vars (MemberExpression computed objectNode propertyNode) =
     (case evaluateASTNode h vars objectNode of
        Inl err \<Rightarrow> Inl err
      | Inr object \<Rightarrow>
         (if object = JNull \<or> object = JUndefined
          then Inl (JsError (str ''Cannot access property of null or undefined''))
          else if computed
          then (case evaluateASTNode h vars propertyNode of
                  Inl err \<Rightarrow> Inl err
                | Inr property \<Rightarrow> member_access h object property)
          else member_access h object (node_name propertyNode)))"
| "evaluateASTNode h vars (BinaryExpression operator leftNode rightNode) =
     (case evaluateASTNode h vars leftNode of
        Inl err \<Rightarrow> Inl err
      | Inr left \<Rightarrow>
         (case evaluateASTNode h vars rightNode of
            Inl err \<Rightarrow> Inl err
          | Inr right \<Rightarrow> binary_result h operator left right))"
| "evaluateASTNode h vars (LogicalExpression operator leftNode rightNode) =
     (case evaluateASTNode h vars leftNode of
        Inl err \<Rightarrow> Inl err
      | Inr leftVal \<Rightarrow>
         (if operator = str ''&&'' \<or> operator = str ''and''
          then (if truthy leftVal then evaluateASTNode h vars rightNode else Inr leftVal)
          else if operator = str ''||'' \<or> operator = str ''or''
          then (if truthy leftVal then Inr leftVal else evaluateASTNode h vars rightNode)
          else Inl (JsError (str ''Unsupported logical operator: '' @ operator))))"
| "evaluateASTNode h vars (UnaryExpression operator argument) =
     (if operator = str ''!'' \<or> operator = str ''-'' \<or> operator = str ''+''
      then (case evaluateASTNode h vars argument of
              Inl err \<Rightarrow> Inl err
            | Inr v \<Rightarrow> unary_result h operator v)
      else Inl (JsError (str ''Unsupported unary operator: '' @ operator)))"
| "evaluateASTNode h vars (ArrayExpression elements) =
     (case evaluate_elements h vars elements of
        Inl err \<Rightarrow> Inl err
      | Inr vs \<Rightarrow> Inr (JArr vs))"
| "evaluateASTNode h vars (OtherExpression node_type) =
     Inl (JsError (str ''Unsupported expression type: '' @ node_type))"
| "evaluate_elements h vars [] = Inr []"
| "evaluate_elements h vars (element # rest) =
     (case evaluateASTNode h vars element of
        Inl err \<Rightarrow> Inl err
      | Inr v \<Rightarrow>
         (case evaluate_elements h vars rest of
            Inl err \<Rightarrow> Inl err
          | Inr vs \<Rightarrow> Inr (v # vs)))"

definition evaluation_failure :: "jstring \<Rightarrow> jstring \<Rightarrow> its_error" where
  "evaluation_failure condition printed =
     ITSSecurityError (str ''Error evaluating condition '' @ [39] @ condition @ [39] @ str '': '' @ printed)
       (str ''conditional_evaluation'') (str ''EXPRESSION_ERROR'') None"

definition evaluateCondition :: "host \<Rightarrow> int \<Rightarrow> jstring \<Rightarrow> jsval \<Rightarrow> its_error + bool" where
  "evaluateCondition h maxLength condition vars =
     (case validateConditionSecurity maxLength condition of
        Inl err \<Rightarrow> Inl err
      | Inr _ \<Rightarrow>
         (case jsep h condition of
            Inl printed \<Rightarrow> Inl (evaluation_failure condition printed)
          | Inr tree \<Rightarrow>
             (case evaluateASTNode h vars tree of
                Inl err \<Rightarrow> Inl (evaluation_failure condition (error_to_string err))
              | Inr result \<Rightarrow> Inr (truthy result))))"

fun evaluateContent :: "host \<Rightarrow> int \<Rightarrow> jsval \<Rightarrow> ContentElement list \<Rightarrow> its_error + ContentElement list" where
  "evaluateContent h maxLength vars [] = Inr []"
| "evaluateContent h maxLength vars (ConditionalElement eid condition thens None # rest) =
     (case evaluateCondition h maxLength condition vars of
        Inl err \<Rightarrow> Inl err
      | Inr conditionResult \<Rightarrow>
         (case (if conditionResult then evaluateContent h maxLength vars thens else Inr []) of
            Inl err \<Rightarrow> Inl err
          | Inr nested \<Rightarrow>
             (case evaluateContent h maxLength vars rest of
                Inl err \<Rightarrow> Inl err
              | Inr result \<Rightarrow> Inr (nested @ result))))"
| "evaluateContent h maxLength vars (ConditionalElement eid condition thens (Some elses) # rest) =
     (case evaluateCondition h maxLength condition vars of
        Inl err \<Rightarrow> Inl err
      | Inr conditionResult \<Rightarrow>
         (case (if conditionResult then evaluateContent h maxLength vars thens
                else evaluateContent h maxLength vars elses) of
            Inl err \<Rightarrow> Inl err
          | Inr nested \<Rightarrow>
             (case evaluateContent h maxLength vars rest of
                Inl err \<Rightarrow> Inl err
              | Inr result \<Rightarrow> Inr (nested @ result))))"
| "evaluateContent h maxLength vars (element # rest) =
     (case evaluateContent h maxLength vars rest of
        Inl err \<Rightarrow> Inl err
      | Inr result \<Rightarrow> Inr (element # result))"


section \<open>VariableProcessor\<close>

text \<open>
  \<open>match_variable text\<close>: a match of \<open>/\$\{([^}]+)\}/\<close> at the start of \<open>text\<close>, as its
  group and the text after the match.
\<close>

definition match_variable :: "jstring \<Rightarrow> (jstring \<times> jstring) option" where
  "match_variable text =
     (if startsWith text (str ''${'')
      then (let group = takeWhile (\<lambda>c. c \<noteq> 125) (drop 2 text) in
            if group \<noteq> [] \<and> 2 + length group < length text
            then Some (group, drop (3 + length group) text) else None)
      else None)"

text \<open>
  \<open>parseInt(s, 10)\<close>; \<open>None\<close> is \<open>NaN\<close>. The result is the integer that the digits
  denote. Beyond \<open>2^53\<close> the host holds the nearest double instead: rounding keeps the order
  of numbers, so every comparison with a length or a limit comes out the same, and
  where the number is printed it is printed by \<open>number_text\<close>.
\<close>

definition parseInt :: "jstring \<Rightarrow> int option" where
  "parseInt s =
     (let t = dropWhile is_space s;
          negative = (t \<noteq> [] \<and> hd t = 45);
          r = (if t \<noteq> [] \<and> (hd t = 45 \<or> hd t = 43) then tl t else t);
          ds = takeWhile is_digit r in
      if ds = [] then None
      else Some (if negative then - int (digits_value ds) else int (digits_value ds)))"

datatype path_part = Property jstring | Index int

definition flush_current :: "jstring \<Rightarrow> path_part list" where
  "flush_current current = (if current \<noteq> [] then [Property current] else [])"

function parse_parts :: "jstring \<Rightarrow> jstring \<Rightarrow> jstring \<Rightarrow> its_error + path_part list" where
  "parse_parts varRef current [] = Inr (flush_current current)"
| "parse_parts varRef current (c # cs) =
     (if c = 46
      then map_sum id ((@) (flush_current current)) (parse_parts varRef [] cs)
      else if c = 91
      then (let indexStr = takeWhile (\<lambda>x. x \<noteq> 93) cs in
            if length indexStr \<ge> length cs
            then Inl (ITSVariableError (str ''Malformed array index in variable reference: '' @ varRef)
                        None None)
            else (case parseInt indexStr of
                    None \<Rightarrow> Inl (ITSVariableError (str ''Invalid array index: '' @ indexStr) None None)
                  | Some n \<Rightarrow>
                      map_sum id ((@) (flush_current current @ [Index n]))
                        (parse_parts varRef [] (drop (Suc (length indexStr)) cs))))
      else parse_parts varRef (current @ [c]) cs)"
  by pat_completeness auto
termination
  by (relation "measure (\<lambda>(varRef, current, rest). length rest)") auto

abbreviation parseVariableReference :: "jstring \<Rightarrow> its_error + path_part list" where
  "parseVariableReference varRef \<equiv> parse_parts varRef [] varRef"

definition referencePattern :: rx where
  "referencePattern =
     rx_seq [RStart, RClass False [(97, 122), (65, 90), (95, 95)],
             RStar (RClass False [(97, 122), (65, 90), (48, 57), (95, 95)]),
             RStar (RAlt (rx_seq [RChar 46, RClass False [(97, 122), (65, 90), (95, 95)],
                                  RStar (RClass False [(97, 122), (65, 90), (48, 57), (95, 95)])])
                         (rx_seq [RChar 91, rx_plus (RClass False [(48, 57), (45, 45)]), RChar 93])),
             REnd]"

definition isValidVariableReference :: "jstring \<Rightarrow> bool" where
  "isValidVariableReference varRef =
     (if includes_str varRef (str ''..'') \<or> startsWith varRef (str ''_'') \<or> includes_str varRef (str ''__'')
      then False
      else rx_test False referencePattern varRef)"

definition index_error :: "host \<Rightarrow> int \<Rightarrow> jsval \<Rightarrow> jstring \<Rightarrow> its_error" where
  "index_error h n current varRef =
     ITSVariableError
       (str ''Array index '' @ number_text h n @ str '' out of bounds for array of length ''
          @ number_text h (array_length current))
       (Some varRef) None"

fun array_items :: "jsval \<Rightarrow> jsval list" where
  "array_items (JArr vs) = vs"
| "array_items _ = []"

fun resolve_parts :: "host \<Rightarrow> jstring \<Rightarrow> jsval \<Rightarrow> path_part list \<Rightarrow> its_error + jsval" where
  "resolve_parts h varRef current [] = Inr current"
| "resolve_parts h varRef current (Property name # rest) =
     (if name = str ''length'' \<and> (isArray current \<or> typeof current = str ''string'')
      then Inr (JNum (array_length current))
      else if typeof current \<noteq> str ''object'' \<or> current = JNull
      then Inl (ITSVariableError
             (str ''Cannot access property '' @ [39] @ name @ [39] @ str '' on non-object value'')
             (Some varRef) None)
      else if name \<noteq> [] \<and> \<not> has_property h current name
      then Inl (ITSVariableError (str ''Property '' @ [39] @ name @ [39] @ str '' not found'')
             (Some varRef) (Some (keys current)))
      else resolve_parts h varRef (if name \<noteq> [] then get_property h current name else current) rest)"
| "resolve_parts h varRef current (Index n # rest) =
     (if \<not> isArray current
      then Inl (ITSVariableError (str ''Cannot access array index on non-array value'')
             (Some varRef) None)
      else if n < 0
      then (let actualIndex = array_length current + n in
            if actualIndex < 0 \<or> actualIndex \<ge> array_length current
            then Inl (index_error h n current varRef)
            else resolve_parts h varRef (array_items current ! nat actualIndex) rest)
      else if n \<ge> array_length current then Inl (index_error h n current varRef)
      else resolve_parts h varRef (array_items current ! nat n) rest)"

definition resolveVariableReference :: "host \<Rightarrow> jstring \<Rightarrow> jsval \<Rightarrow> its_error + jsval" where
  "resolveVariableReference h varRef vars =
     (if \<not> isValidVariableReference varRef
      then Inl (ITSVariableError (str ''Invalid variable reference syntax: '' @ varRef)
             (Some varRef) None)
      else (case parseVariableReference varRef of
              Inl err \<Rightarrow> Inl err
            | Inr parts \<Rightarrow> resolve_parts h varRef vars parts))"

fun strings_of :: "host \<Rightarrow> jsval list \<Rightarrow> jstring list option" where
  "strings_of h [] = Some []"
| "strings_of h (v # vs) =
     (case js_to_string h v of
        None \<Rightarrow> None
      | Some s \<Rightarrow> (case strings_of h vs of None \<Rightarrow> None | Some ss \<Rightarrow> Some (s # ss)))"

fun join :: "jstring \<Rightarrow> jstring list \<Rightarrow> jstring" where
  "join sep [] = []"
| "join sep [s] = s"
| "join sep (s # ss) = s @ sep @ join sep ss"

definition sanitiseResolvedValue :: "host \<Rightarrow> jsval \<Rightarrow> its_error + jstring" where
  "sanitiseResolvedValue h v =
     (if typeof v = str ''string'' then Inr (string_of v)
      else if isArray v
      then (case strings_of h (array_items v) of
              None \<Rightarrow> Inl (HostError (str ''TypeError'') (error_text h (str ''String'') v))
            | Some ss \<Rightarrow> Inr (join (str '', '') ss))
      else if typeof v = str ''object'' \<and> v \<noteq> JNull
      then Inr (str ''[Object with '' @ show_nat (length (keys v)) @ str '' properties]'')
      else (case js_to_string h v of
              None \<Rightarrow> Inl (HostError (str ''TypeError'') (error_text h (str ''String'') v))
            | Some strValue \<Rightarrow>
                Inr (if length strValue > 1000 then take 1000 strValue @ str ''... [TRUNCATED]''
                     else strValue)))"

fun is_variable_error :: "its_error \<Rightarrow> bool" where
  "is_variable_error (ITSVariableError _ _ _) = True"
| "is_variable_error _ = False"

text \<open>The callback of \<open>processString\<close> for one match, with its \<open>catch\<close>.\<close>

definition replace_reference :: "host \<Rightarrow> jsval \<Rightarrow> jstring \<Rightarrow> its_error + jstring" where
  "replace_reference h vars varRef =
     (case (case resolveVariableReference h (trim varRef) vars of
              Inl err \<Rightarrow> Inl err
            | Inr v \<Rightarrow> sanitiseResolvedValue h v) of
        Inl err \<Rightarrow>
          (if is_variable_error err then Inl err
           else Inl (ITSVariableError (str ''Error resolving variable reference: '' @ varRef)
                  (Some varRef) (Some (keys vars))))
      | Inr s \<Rightarrow> Inr s)"

function processString :: "host \<Rightarrow> jsval \<Rightarrow> jstring \<Rightarrow> its_error + jstring" where
  "processString h vars [] = Inr []"
| "processString h vars (c # cs) =
     (case match_variable (c # cs) of
        None \<Rightarrow> map_sum id ((#) c) (processString h vars cs)
      | Some (varRef, rest) \<Rightarrow>
          (case replace_reference h vars varRef of
             Inl err \<Rightarrow> Inl err
           | Inr s \<Rightarrow> map_sum id ((@) s) (processString h vars rest)))"
  by pat_completeness auto
termination
  by (relation "measure (\<lambda>(h, vars, text). length text)")
     (auto simp: match_variable_def Let_def split: if_splits)

fun processObject :: "host \<Rightarrow> jsval \<Rightarrow> jsval \<Rightarrow> its_error + jsval"
  and process_items :: "host \<Rightarrow> jsval \<Rightarrow> jsval list \<Rightarrow> its_error + jsval list"
  and process_props :: "host \<Rightarrow> jsval \<Rightarrow> jsval \<Rightarrow> props \<Rightarrow> its_error + jsval"
where
  "processObject h vars (JStr s) = map_sum id JStr (processString h vars s)"
| "processObject h vars (JArr vs) = map_sum id JArr (process_items h vars vs)"
| "processObject h vars (JObj proto ps) = process_props h vars (JObj JObjectPrototype []) ps"
| "processObject h vars JObjectPrototype = Inr (JObj JObjectPrototype [])"
| "processObject h vars v = Inr v"
| "process_items h vars [] = Inr []"
| "process_items h vars (v # vs) =
     (case processObject h vars v of
        Inl err \<Rightarrow> Inl err
      | Inr v' \<Rightarrow> map_sum id ((#) v') (process_items h vars vs))"
| "process_props h vars result [] = Inr result"
| "process_props h vars result ((k, e, v) # ps) =
     (if e
      then (case processObject h vars v of
              Inl err \<Rightarrow> Inl err
            | Inr v' \<Rightarrow> process_props h vars (set_property result k v') ps)
      else process_props h vars result ps)"

fun processContent :: "host \<Rightarrow> jsval \<Rightarrow> ContentElement list \<Rightarrow> its_error + ContentElement list"
  and processElement :: "host \<Rightarrow> jsval \<Rightarrow> ContentElement \<Rightarrow> its_error + ContentElement"
where
  "processContent h vars [] = Inr []"
| "processContent h vars (element # rest) =
     (case processElement h vars element of
        Inl err \<Rightarrow> Inl err
      | Inr element' \<Rightarrow> map_sum id ((#) element') (processContent h vars rest))"
| "processElement h vars (TextElement eid text) =
     map_sum id (TextElement eid) (processString h vars text)"
| "processElement h vars (PlaceholderElement eid instructionType config) =
     map_sum id (PlaceholderElement eid instructionType) (processObject h vars config)"
| "processElement h vars (ConditionalElement eid condition thens None) =
     (case processString h vars condition of
        Inl err \<Rightarrow> Inl err
      | Inr condition' \<Rightarrow>
          map_sum id (\<lambda>thens'. ConditionalElement eid condition' thens' None)
            (processContent h vars thens))"
| "processElement h vars (ConditionalElement eid condition thens (Some elses)) =
     (case processString h vars condition of
        Inl err \<Rightarrow> Inl err
      | Inr condition' \<Rightarrow>
          (case processContent h vars thens of
             Inl err \<Rightarrow> Inl err
           | Inr thens' \<Rightarrow>
               map_sum id (\<lambda>elses'. ConditionalElement eid condition' thens' (Some elses'))
                 (processContent h vars elses)))"

text \<open>
  \<open>findVariableReferences\<close>: the groups of all matches in the serialised content, trimmed,
  each once, in the order of their first occurrence.
\<close>

function all_references :: "jstring \<Rightarrow> jstring list" where
  "all_references [] = []"
| "all_references (c # cs) =
     (case match_variable (c # cs) of
        None \<Rightarrow> all_references cs
      | Some (varRef, rest) \<Rightarrow> trim varRef # all_references rest)"
  by pat_completeness auto
termination
  by (relation "measure length") (auto simp: match_variable_def Let_def split: if_splits)

definition findVariableReferences :: "host \<Rightarrow> ContentElement list \<Rightarrow> jstring list" where
  "findVariableReferences h elements = rev (remdups (rev (all_references (json_content h elements))))"

text \<open>\<open>VariableProcessor.validateVariables\<close>: the messages of the references that do not resolve.\<close>

definition reference_errors :: "host \<Rightarrow> ContentElement list \<Rightarrow> jsval \<Rightarrow> jstring list" where
  "reference_errors h elements vars =
     concat (map (\<lambda>varRef.
        (case resolveVariableReference h varRef vars of
           Inr _ \<Rightarrow> []
         | Inl err \<Rightarrow>
             (if is_variable_error err then [error_message err]
              else [str ''Error validating variable reference '' @ [39] @ varRef @ [39] @ str '': ''
                      @ error_message err])))
       (findVariableReferences h elements))"


section \<open>SchemaLoader\<close>

text \<open>
  The state of a loader: its cache, how often the clock has been read, and the requests
  sent to the network so far. A URL that the host's URL class parses is never the name of
  a member of \<open>Object.prototype\<close>, so the cache is the map of its stored entries.
\<close>

record CacheEntry =
  schema :: jsval
  cachedAt :: int
  expiresAt :: int

record loader_state =
  cache :: "jstring \<rightharpoonup> CacheEntry"
  ticks :: nat
  requests :: "jstring list"

definition date_now :: "host \<Rightarrow> loader_state \<Rightarrow> int \<times> loader_state" where
  "date_now h st = (clock h (ticks st), st\<lparr>ticks := Suc (ticks st)\<rparr>)"

definition getFromCache :: "host \<Rightarrow> loader_state \<Rightarrow> jstring \<Rightarrow> jsval option \<times> loader_state" where
  "getFromCache h st url =
     (case cache st url of
        None \<Rightarrow> (None, st)
      | Some cached \<Rightarrow>
          (let (now, st1) = date_now h st in
           if now > expiresAt cached then (None, st1\<lparr>cache := (cache st1)(url := None)\<rparr>)
           else (Some (schema cached), st1)))"

definition saveToCache :: "host \<Rightarrow> int \<Rightarrow> loader_state \<Rightarrow> jstring \<Rightarrow> jsval \<Rightarrow> loader_state" where
  "saveToCache h cacheTTL st url sch =
     (let (t1, st1) = date_now h st; (t2, st2) = date_now h st1 in
      st2\<lparr>cache := (cache st2)(url \<mapsto> \<lparr>schema = sch, cachedAt = t1, expiresAt = t2 + cacheTTL\<rparr>)\<rparr>)"

definition clearCache :: "loader_state \<Rightarrow> loader_state" where
  "clearCache st = st\<lparr>cache := Map.empty\<rparr>"

definition resolveUrl :: "host \<Rightarrow> jstring \<Rightarrow> jstring option \<Rightarrow> jstring" where
  "resolveUrl h url baseUrl =
     (case baseUrl of
        None \<Rightarrow> url
      | Some base \<Rightarrow>
          (if base = [] \<or> url_parse h url \<noteq> None then url
           else (case url_resolve h url base of Some resolved \<Rightarrow> resolved | None \<Rightarrow> url)))"

definition validateInstructionType :: "host \<Rightarrow> jstring \<Rightarrow> jsval \<Rightarrow> its_error + unit" where
  "validateInstructionType h name typeDef =
     (if typeof typeDef \<noteq> str ''object'' \<or> typeDef = JNull
      then Inl (JsError (str ''Instruction type '' @ [39] @ name @ [39] @ str '' must be an object''))
      else if \<not> has_property h typeDef (str ''template'')
      then Inl (JsError (str ''Instruction type '' @ [39] @ name @ [39]
                  @ str '' missing required '' @ [39] @ str ''template'' @ [39] @ str '' field''))
      else if typeof (get_property h typeDef (str ''template'')) \<noteq> str ''string''
      then Inl (JsError (str ''Instruction type '' @ [39] @ name @ [39]
                  @ str '' template must be a string''))
      else Inr ())"

fun validate_types :: "host \<Rightarrow> (jstring \<times> jsval) list \<Rightarrow> its_error + unit" where
  "validate_types h [] = Inr ()"
| "validate_types h ((name, typeDef) # rest) =
     (case validateInstructionType h name typeDef of
        Inl err \<Rightarrow> Inl err
      | Inr _ \<Rightarrow> validate_types h rest)"

definition validateSchemaStructure :: "host \<Rightarrow> jsval \<Rightarrow> its_error + unit" where
  "validateSchemaStructure h sch =
     (if typeof sch \<noteq> str ''object'' \<or> sch = JNull
      then Inl (JsError (str ''Schema must be a JSON object''))
      else if has_property h sch (str ''instructionTypes'')
      then (let types = get_property h sch (str ''instructionTypes'') in
            if typeof types \<noteq> str ''object'' \<or> types = JNull
            then Inl (JsError (str ''instructionTypes must be an object''))
            else validate_types h (entries types))
      else Inr ())"

definition max_schema_size :: int where
  "max_schema_size = 10 * 1024 * 1024"

definition check_response :: "host \<Rightarrow> http_response \<Rightarrow> its_error + jsval" where
  "check_response h response =
     (if \<not> ok response
      then Inl (JsError (str ''HTTP '' @ number_text h (status response) @ str '': '' @ statusText response))
      else (let contentType = (case content_type response of Some ct \<Rightarrow> ct | None \<Rightarrow> []) in
        if \<not> includes_str contentType (str ''application/json'') \<and> \<not> includes_str contentType (str ''text/'')
        then Inl (JsError (str ''Invalid content type: '' @ contentType))
        else if (case content_length response of
                   Some cl \<Rightarrow> cl \<noteq> [] \<and> (case parseInt cl of Some sz \<Rightarrow> sz > max_schema_size | None \<Rightarrow> False)
                 | None \<Rightarrow> False)
        then Inl (JsError (str ''Schema too large: ''
                    @ number_text h (the (parseInt (the (content_length response)))) @ str '' bytes''))
        else if int (length (body response)) > max_schema_size
        then Inl (JsError (str ''Schema response too large: '' @ show_nat (length (body response))
                    @ str '' bytes''))
        else (case json_parse h (body response) of
                None \<Rightarrow> Inl (HostError (str ''SyntaxError'')
                              (error_text h (str ''JSON.parse'') (JStr (body response))))
              | Some sch \<Rightarrow>
                  (case validateSchemaStructure h sch of
                     Inl err \<Rightarrow> Inl err
                   | Inr _ \<Rightarrow> Inr sch))))"

definition loadFromUrl :: "host \<Rightarrow> int \<Rightarrow> loader_state \<Rightarrow> jstring \<Rightarrow> (its_error + jsval) \<times> loader_state" where
  "loadFromUrl h timeout st url =
     (let st1 = st\<lparr>requests := requests st @ [url]\<rparr> in
      (case fetch h (length (requests st)) url of
         Failed name message \<Rightarrow> (Inl (HostError name message), st1)
       | Aborted \<Rightarrow>
           (Inl (JsError (str ''Request timeout after '' @ number_text h timeout @ str ''ms'')), st1)
       | Responded response \<Rightarrow> (check_response h response, st1)))"

definition schema_load_failed :: "jstring \<Rightarrow> its_error \<Rightarrow> its_error" where
  "schema_load_failed resolvedUrl err =
     ITSSecurityError
       (str ''Failed to load schema from '' @ resolvedUrl @ str '': '' @ error_to_string err)
       (str ''schema_loading'') (str ''SCHEMA_LOAD_FAILED'') None"

definition loadSchema ::
  "host \<Rightarrow> SecurityConfig \<Rightarrow> int \<Rightarrow> int \<Rightarrow> loader_state \<Rightarrow> jstring \<Rightarrow> jstring option
     \<Rightarrow> (its_error + jsval) \<times> loader_state" where
  "loadSchema h cfg cacheTTL timeout st schemaUrl baseUrl =
     (let resolvedUrl = resolveUrl h schemaUrl baseUrl in
      case validateSchemaUrl h cfg resolvedUrl of
        Inl err \<Rightarrow> (Inl err, st)
      | Inr _ \<Rightarrow>
          (let (cached, st1) = getFromCache h st resolvedUrl in
           if (case cached of Some sch \<Rightarrow> truthy sch | None \<Rightarrow> False) then (Inr (the cached), st1)
           else (case loadFromUrl h timeout st1 resolvedUrl of
                   (Inl err, st2) \<Rightarrow> (Inl (schema_load_failed resolvedUrl err), st2)
                 | (Inr sch, st2) \<Rightarrow> (Inr sch, saveToCache h cacheTTL st2 resolvedUrl sch))))"


section \<open>ITSCompiler\<close>

text \<open>
  \<open>loadInstructionTypes\<close>. \<open>add_type\<close> is the body of both loops over the entries of a
  schema or of the custom types: the override record when the name is already \<open>in\<close> the
  accumulated object, then the assignment of the new definition.
\<close>

definition or_else :: "jsval \<Rightarrow> jsval \<Rightarrow> jsval" where
  "or_else a b = (if truthy a then a else b)"

definition new_definition :: "host \<Rightarrow> jsval \<Rightarrow> jstring \<Rightarrow> jsval" where
  "new_definition h typeDef src =
     (let d0 = [(str ''template'', get_property h typeDef (str ''template'')), (str ''source'', JStr src)];
          d1 = (if get_property h typeDef (str ''description'') \<noteq> JUndefined
                then d0 @ [(str ''description'', get_property h typeDef (str ''description''))] else d0);
          d2 = (if get_property h typeDef (str ''configSchema'') \<noteq> JUndefined
                then d1 @ [(str ''configSchema'', get_property h typeDef (str ''configSchema''))] else d1)
      in plain d2)"

definition add_type ::
  "host \<Rightarrow> jstring \<Rightarrow> jstring \<Rightarrow> OverrideType \<Rightarrow> jsval \<times> TypeOverride list \<Rightarrow> jstring \<times> jsval
     \<Rightarrow> its_error + jsval \<times> TypeOverride list" where
  "add_type h overrideSrc src kind acc entry =
     (case acc of (instructionTypes, ovs) \<Rightarrow>
      case entry of (name, typeDef) \<Rightarrow>
      (let previous = get_property h instructionTypes name in
       if has_property h instructionTypes name \<and> (previous = JNull \<or> previous = JUndefined)
       then Inl (HostError (str ''TypeError'') (error_text h (str ''source'') previous))
       else if typeDef = JNull \<or> typeDef = JUndefined
       then Inl (HostError (str ''TypeError'') (error_text h (str ''template'') typeDef))
       else Inr (set_property instructionTypes name (new_definition h typeDef src),
                 (if has_property h instructionTypes name
                  then ovs @ [\<lparr> typeName = name, overrideSource = overrideSrc,
                               overriddenSource = or_else (get_property h previous (str ''source''))
                                                    (JStr (str ''unknown'')),
                               overrideType = kind \<rparr>]
                  else ovs))))"

fun add_types ::
  "host \<Rightarrow> jstring \<Rightarrow> jstring \<Rightarrow> OverrideType \<Rightarrow> jsval \<times> TypeOverride list \<Rightarrow> (jstring \<times> jsval) list
     \<Rightarrow> its_error + jsval \<times> TypeOverride list" where
  "add_types h overrideSrc src kind acc [] = Inr acc"
| "add_types h overrideSrc src kind acc (entry # rest) =
     (case add_type h overrideSrc src kind acc entry of
        Inl err \<Rightarrow> Inl err
      | Inr acc' \<Rightarrow> add_types h overrideSrc src kind acc' rest)"

fun load_extensions ::
  "host \<Rightarrow> SecurityConfig \<Rightarrow> int \<Rightarrow> loader_state \<Rightarrow> jstring option \<Rightarrow> jsval \<times> TypeOverride list
     \<Rightarrow> jstring list \<Rightarrow> (its_error + jsval \<times> TypeOverride list) \<times> loader_state" where
  "load_extensions h cfg cacheTTL st baseUrl acc [] = (Inr acc, st)"
| "load_extensions h cfg cacheTTL st baseUrl acc (schemaUrl # rest) =
     (case loadSchema h cfg cacheTTL (requestTimeout cfg) st schemaUrl baseUrl of
        (Inl err, st1) \<Rightarrow> (Inl err, st1)
      | (Inr sch, st1) \<Rightarrow>
          (case add_types h schemaUrl schemaUrl SCHEMA_EXTENSION acc
                  (entries (or_else (get_property h sch (str ''instructionTypes'')) (plain []))) of
             Inl err \<Rightarrow> (Inl err, st1)
           | Inr acc' \<Rightarrow> load_extensions h cfg cacheTTL st1 baseUrl acc' rest))"

definition loadInstructionTypes ::
  "host \<Rightarrow> SecurityConfig \<Rightarrow> int \<Rightarrow> loader_state \<Rightarrow> ITSTemplate \<Rightarrow> jstring option
     \<Rightarrow> (its_error + jsval \<times> TypeOverride list) \<times> loader_state" where
  "loadInstructionTypes h cfg cacheTTL st t baseUrl =
     (case load_extensions h cfg cacheTTL st baseUrl (plain [], [])
             (case extends t of Some urls \<Rightarrow> urls | None \<Rightarrow> []) of
        (Inl err, st1) \<Rightarrow> (Inl err, st1)
      | (Inr acc, st1) \<Rightarrow>
          (add_types h (str ''customInstructionTypes'') (str ''custom'') CUSTOM acc
             (entries (case customInstructionTypes t of
                         Some custom \<Rightarrow> or_else custom (plain [])
                       | None \<Rightarrow> plain [])),
           st1))"

text \<open>
  String replacement. \<open>expand\<close> is the host's expansion of \<open>$$\<close>, \<open>$&\<close>, \<open>$`\<close> and
  \<open>$'\<close> in a replacement text for a match without groups; \<open>replace_first\<close> is
  \<open>s.replace(pattern, replacement)\<close> with a string pattern, \<open>replace_all\<close> the same with
  the global regular expression that matches the literal \<open>pattern\<close>.
\<close>

fun expand :: "jstring \<Rightarrow> jstring \<Rightarrow> jstring \<Rightarrow> jstring \<Rightarrow> jstring" where
  "expand matched before after [] = []"
| "expand matched before after [c] = [c]"
| "expand matched before after (c # d # r) =
     (if c = 36 \<and> d = 36 then 36 # expand matched before after r
      else if c = 36 \<and> d = 38 then matched @ expand matched before after r
      else if c = 36 \<and> d = 96 then before @ expand matched before after r
      else if c = 36 \<and> d = 39 then after @ expand matched before after r
      else c # expand matched before after (d # r))"

definition replace_first :: "jstring \<Rightarrow> jstring \<Rightarrow> jstring \<Rightarrow> jstring" where
  "replace_first s pattern replacement =
     (case indexOf s pattern of
        None \<Rightarrow> s
      | Some i \<Rightarrow>
          take i s @ expand pattern (take i s) (drop (i + length pattern) s) replacement
            @ drop (i + length pattern) s)"

function replace_from :: "jstring \<Rightarrow> jstring \<Rightarrow> jstring \<Rightarrow> nat \<Rightarrow> jstring" where
  "replace_from s pattern replacement i =
     (if i \<ge> length s \<or> pattern = [] then drop i s
      else if starts_at s pattern i
      then expand pattern (take i s) (drop (i + length pattern) s) replacement
             @ replace_from s pattern replacement (i + length pattern)
      else s ! i # replace_from s pattern replacement (Suc i))"
  by pat_completeness auto
termination
  by (relation "measure (\<lambda>(s, pattern, replacement, i). length s - i)")
     (auto simp: starts_at_def neq_Nil_conv)

declare replace_from.simps [simp del]

definition replace_all :: "jstring \<Rightarrow> jstring \<Rightarrow> jstring \<Rightarrow> jstring" where
  "replace_all s pattern replacement = replace_from s pattern replacement 0"

fun replace_config :: "host \<Rightarrow> jstring \<Rightarrow> (jstring \<times> jsval) list \<Rightarrow> its_error + jstring" where
  "replace_config h formattedTemplate [] = Inr formattedTemplate"
| "replace_config h formattedTemplate ((key, v) # rest) =
     (if key \<noteq> str ''description''
      then (case js_to_string h v of
              None \<Rightarrow> Inl (HostError (str ''TypeError'') (error_text h (str ''String'') v))
            | Some s \<Rightarrow>
                replace_config h (replace_all formattedTemplate (str ''{'' @ key @ str ''}'') s) rest)
      else replace_config h formattedTemplate rest)"

definition formatInstruction :: "host \<Rightarrow> jsval \<Rightarrow> jsval \<Rightarrow> its_error + jstring" where
  "formatInstruction h instructionType config =
     (if config = JNull \<or> config = JUndefined
      then Inl (HostError (str ''TypeError'') (error_text h (str ''description'') config))
      else if instructionType = JNull \<or> instructionType = JUndefined
      then Inl (HostError (str ''TypeError'') (error_text h (str ''template'') instructionType))
      else (let dsc = or_else (get_property h config (str ''description'')) (JStr []);
                 formattedTemplate = get_property h instructionType (str ''template'') in
            if typeof formattedTemplate \<noteq> str ''string''
            then Inl (HostError (str ''TypeError'') (error_text h (str ''replace'') formattedTemplate))
            else (case js_to_string h dsc of
                    None \<Rightarrow> Inl (HostError (str ''TypeError'') (error_text h (str ''String'') dsc))
                  | Some d \<Rightarrow>
                      replace_config h
                        (replace_all (string_of formattedTemplate) (str ''{description}'') d)
                        (entries config))))"

definition generateInstruction ::
  "host \<Rightarrow> jstring option \<Rightarrow> jstring \<Rightarrow> jsval \<Rightarrow> jsval \<Rightarrow> its_error + jstring" where
  "generateInstruction h eid instructionTypeName config instructionTypes =
     (if \<not> has_property h instructionTypes instructionTypeName
      then Inl (ITSCompilationError
             (str ''Unknown instruction type: '' @ [39] @ instructionTypeName @ [39])
             eid (Some instructionTypeName) (Some (str ''instruction_generation'')))
      else (case formatInstruction h (get_property h instructionTypes instructionTypeName) config of
              Inl err \<Rightarrow>
                Inl (ITSCompilationError
                  (str ''Missing required configuration for instruction type '' @ [39]
                     @ instructionTypeName @ [39] @ str '': '' @ error_to_string err)
                  eid (Some instructionTypeName) (Some (str ''instruction_generation'')))
            | Inr instruction \<Rightarrow> Inr instruction))"

definition getDefaultSystemPrompt :: jstring where
  "getDefaultSystemPrompt =
     str ''You are an AI assistant that fills in content templates. ''
     @ str ''Follow the instructions exactly and replace each placeholder with ''
     @ str ''appropriate content based on the user prompts provided. ''
     @ str ''Respond only with the transformed content.''"

definition getDefaultProcessingInstructions :: "jstring list" where
  "getDefaultProcessingInstructions =
     [str ''Replace each placeholder marked with << >> with generated content'',
      str ''The user'' @ [39] @ str ''s content request is wrapped in ([{< >}]) to distinguish it from instructions'',
      str ''Follow the format requirements specified after each user prompt'',
      str ''Maintain the existing structure and formatting of the template'',
      str ''Only replace the placeholders - do not modify any other text'',
      str ''Generate content that matches the tone and style requested'',
      str ''Respond only with the transformed content - do not include any explanations or additional text'']"

text \<open>
  \<open>generatePrompt\<close>: \<open>processed_content\<close> is its loop over the content, which fills the
  array \<open>processedContent\<close>; \<open>wrap_instruction\<close> is what the loop pushes for a placeholder.
\<close>

definition wrap_instruction :: "jstring \<Rightarrow> jstring \<Rightarrow> jstring" where
  "wrap_instruction wrapper instruction =
     (if startsWith instruction (str ''<<'') \<and> endsWith instruction (str ''>>'') then instruction
      else replace_first wrapper (str ''{instruction}'') instruction)"

fun processed_content ::
  "host \<Rightarrow> jstring \<Rightarrow> jsval \<Rightarrow> ContentElement list \<Rightarrow> its_error + jstring list" where
  "processed_content h wrapper instructionTypes [] = Inr []"
| "processed_content h wrapper instructionTypes (TextElement eid text # rest) =
     map_sum id ((#) text) (processed_content h wrapper instructionTypes rest)"
| "processed_content h wrapper instructionTypes (PlaceholderElement eid tname config # rest) =
     (case generateInstruction h eid tname config instructionTypes of
        Inl err \<Rightarrow> Inl err
      | Inr instruction \<Rightarrow>
          map_sum id ((#) (wrap_instruction wrapper instruction))
            (processed_content h wrapper instructionTypes rest))"
| "processed_content h wrapper instructionTypes (ConditionalElement eid c thens elses # rest) =
     processed_content h wrapper instructionTypes rest"

definition nonempty_or :: "jstring option \<Rightarrow> jstring \<Rightarrow> jstring" where
  "nonempty_or configured dflt = (case configured of Some s \<Rightarrow> (if s \<noteq> [] then s else dflt) | None \<Rightarrow> dflt)"

definition the_wrapper :: "ITSTemplate \<Rightarrow> jstring" where
  "the_wrapper t =
     nonempty_or (case compilerConfig t of Some cc \<Rightarrow> instructionWrapper cc | None \<Rightarrow> None)
       (str ''<<{instruction}>>'')"

definition numbered :: "jstring list \<Rightarrow> jstring list" where
  "numbered instructions =
     map (\<lambda>(i, instruction). show_nat (i + 1) @ str ''. '' @ instruction)
       (zip [0..<length instructions] instructions)"

definition prompt_parts :: "ITSTemplate \<Rightarrow> jstring list" where
  "prompt_parts t =
     (let sys = nonempty_or (case compilerConfig t of Some cc \<Rightarrow> systemPrompt cc | None \<Rightarrow> None)
                  getDefaultSystemPrompt;
          instructions = (case (case compilerConfig t of Some cc \<Rightarrow> processingInstructions cc | None \<Rightarrow> None) of
                            Some l \<Rightarrow> l | None \<Rightarrow> getDefaultProcessingInstructions)
      in [str ''INTRODUCTION'', [], sys, [], str ''INSTRUCTIONS'', []] @ numbered instructions
         @ [[], str ''TEMPLATE'', []])"

definition generatePrompt :: "host \<Rightarrow> ContentElement list \<Rightarrow> jsval \<Rightarrow> ITSTemplate \<Rightarrow> its_error + jstring" where
  "generatePrompt h elements instructionTypes t =
     (case processed_content h (the_wrapper t) instructionTypes elements of
        Inl err \<Rightarrow> Inl err
      | Inr processedContent \<Rightarrow> Inr (join [10] (prompt_parts t @ [concat processedContent])))"

text \<open>\<open>ITSCompiler.validateContent\<close>: the messages about the shape of the elements.\<close>

fun structure_errors :: "host \<Rightarrow> nat \<Rightarrow> ContentElement list \<Rightarrow> jstring list" where
  "structure_errors h i [] = []"
| "structure_errors h i (TextElement eid text # rest) =
     (if text = [] then [str ''Text element '' @ show_nat i @ str '' missing required field: text'']
      else [])
     @ structure_errors h (Suc i) rest"
| "structure_errors h i (PlaceholderElement eid tname config # rest) =
     (if tname = []
      then [str ''Placeholder element '' @ show_nat i @ str '' missing required field: instructionType'']
      else [])
     @ (if \<not> truthy config
        then [str ''Placeholder element '' @ show_nat i @ str '' missing required field: config'']
        else if typeof config \<noteq> str ''object''
        then [str ''Placeholder element '' @ show_nat i @ str '' config must be an object'']
        else if \<not> truthy (get_property h config (str ''description''))
        then [str ''Placeholder element '' @ show_nat i @ str '' config missing required field: description'']
        else [])
     @ structure_errors h (Suc i) rest"
| "structure_errors h i (ConditionalElement eid condition thens None # rest) =
     (if condition = []
      then [str ''Conditional element '' @ show_nat i @ str '' missing required field: condition'']
      else [])
     @ structure_errors h 0 thens
     @ structure_errors h (Suc i) rest"
| "structure_errors h i (ConditionalElement eid condition thens (Some elses) # rest) =
     (if condition = []
      then [str ''Conditional element '' @ show_nat i @ str '' missing required field: condition'']
      else [])
     @ structure_errors h 0 thens
     @ structure_errors h 0 elses
     @ structure_errors h (Suc i) rest"

definition variables_object :: "ITSTemplate \<Rightarrow> jsval" where
  "variables_object t = (case variables t of Some (proto, ps) \<Rightarrow> JObj proto ps | None \<Rightarrow> plain [])"

definition validate ::
  "host \<Rightarrow> SecurityConfig \<Rightarrow> int \<Rightarrow> loader_state \<Rightarrow> ITSTemplate \<Rightarrow> jstring option
     \<Rightarrow> ValidationResult \<times> loader_state" where
  "validate h cfg cacheTTL st t baseUrl =
     (let (startTime, st1) = date_now h st;
          issues = (case validateTemplate h cfg t of Inl err \<Rightarrow> [error_message err] | Inr _ \<Rightarrow> []);
          errs1 = (if version t = [] then [str ''Missing required field: version''] else [])
                  @ (if content t = [] then [str ''Field '' @ [39] @ str ''content'' @ [39] @ str '' cannot be empty''] else [])
                  @ structure_errors h 0 (content t);
          (loaded, st2) = loadInstructionTypes h cfg cacheTTL st1 t baseUrl;
          errs2 = (case loaded of
                     Inl err \<Rightarrow> [str ''Schema loading error: '' @ error_message err]
                   | Inr _ \<Rightarrow> []);
          errs3 = reference_errors h (content t) (variables_object t);
          (endTime, st3) = date_now h st2;
          errs = errs1 @ errs2 @ errs3
      in (\<lparr> isValid = (errs = [] \<and> issues = []), errors = errs, warnings = [],
            securityIssues = issues, validationTime = endTime - startTime \<rparr>, st3))"

fun is_validation_or_compilation_error :: "its_error \<Rightarrow> bool" where
  "is_validation_or_compilation_error (ITSValidationError _ _ _) = True"
| "is_validation_or_compilation_error (ITSCompilationError _ _ _ _) = True"
| "is_validation_or_compilation_error _ = False"

text \<open>The \<open>catch\<close> of \<open>compile\<close>.\<close>

definition compilation_failed :: "its_error \<Rightarrow> its_error" where
  "compilation_failed err =
     (if is_validation_or_compilation_error err then err
      else ITSCompilationError (str ''Compilation failed: '' @ error_to_string err)
             None None (Some (str ''compilation'')))"

definition CACHE_TTL :: int where
  "CACHE_TTL = 3600000"

definition merge_variables :: "ITSTemplate \<Rightarrow> jsval option \<Rightarrow> jsval" where
  "merge_variables t callerVariables =
     spread2 (variables_object t)
       (case callerVariables of Some v \<Rightarrow> or_else v (plain []) | None \<Rightarrow> plain [])"

definition compile ::
  "host \<Rightarrow> SecurityConfig \<Rightarrow> loader_state \<Rightarrow> ITSTemplate \<Rightarrow> jsval option \<Rightarrow> jstring option
     \<Rightarrow> (its_error + CompilationResult) \<times> loader_state" where
  "compile h cfg st t callerVariables baseUrl =
     (let (startTime, st1) = date_now h st in
      case validateTemplate h cfg t of
        Inl err \<Rightarrow> (Inl (compilation_failed err), st1)
      | Inr _ \<Rightarrow>
         (let (validationResult, st2) = validate h cfg CACHE_TTL st1 t baseUrl in
          if \<not> isValid validationResult
          then (Inl (ITSValidationError (str ''Template validation failed'')
                       (errors validationResult) (securityIssues validationResult)), st2)
          else
           (let mergedVariables = merge_variables t callerVariables in
            case loadInstructionTypes h cfg CACHE_TTL st2 t baseUrl of
              (Inl err, st3) \<Rightarrow> (Inl (compilation_failed err), st3)
            | (Inr (instructionTypes, ovs), st3) \<Rightarrow>
               (case processContent h mergedVariables (content t) of
                  Inl err \<Rightarrow> (Inl (compilation_failed err), st3)
                | Inr processedContent \<Rightarrow>
                   (case evaluateContent h (maxExpressionLength cfg) mergedVariables processedContent of
                      Inl err \<Rightarrow> (Inl (compilation_failed err), st3)
                    | Inr finalContent \<Rightarrow>
                       (case generatePrompt h finalContent instructionTypes t of
                          Inl err \<Rightarrow> (Inl (compilation_failed err), st3)
                        | Inr p \<Rightarrow>
                           (let (endTime, st4) = date_now h st3 in
                            (Inr \<lparr> prompt = p, result_template = t,
                                   result_variables = mergedVariables, overrides = ovs,
                                   result_warnings = warnings validationResult,
                                   compilationTime = endTime - startTime \<rparr>, st4))))))))"


section \<open>Notions of the specification\<close>

text \<open>
  A host for examples: it knows no expression, no URL and no builtin member, and its
  network never answers. The examples override the fields they need.
\<close>

definition bare_host :: host where
  "bare_host =
     \<lparr> jsep = (\<lambda>condition. Inl (str ''Error: cannot parse'')),
       url_parse = (\<lambda>url. None),
       url_resolve = (\<lambda>url base. None),
       json_template = (\<lambda>t. []),
       json_content = (\<lambda>elements. []),
       json_parse = (\<lambda>text. None),
       compare = (\<lambda>operator a b. None),
       to_number = (\<lambda>v. None),
       obj_to_string = (\<lambda>v. None),
       number_string = (\<lambda>n. []),
       error_text = (\<lambda>operation v. []),
       proto_member = (\<lambda>v k. None),
       fetch = (\<lambda>n url. Aborted),
       clock = (\<lambda>n. int n) \<rparr>"

definition initial_state :: loader_state where
  "initial_state = \<lparr> cache = Map.empty, ticks = 0, requests = [] \<rparr>"

text \<open>The link-local URL of claim C4 and what the host's URL class makes of it.\<close>

definition metadata_url :: jstring where
  "metadata_url = str ''http://169.254.169.254/''"

definition metadata_url_parsed :: parsed_url where
  "metadata_url_parsed =
     \<lparr> protocol = str ''http:'', hostname = str ''169.254.169.254'', pathname = str ''/'' \<rparr>"

definition private_network_blocked :: "jstring \<Rightarrow> its_error" where
  "private_network_blocked host_name =
     ITSSecurityError (str ''Private network access blocked: '' @ host_name)
       (str ''private_network_blocked'') (str ''SSRF_BLOCKED'') None"

text \<open>
  Conditional pruning as the specification words it: a true condition keeps the
  \<open>content\<close> branch, a false one the \<open>else\<close> branch or nothing, and what is kept is
  pruned in turn. \<open>all_accepted\<close>: every condition of the document evaluates to a boolean.
\<close>

fun prune :: "(jstring \<Rightarrow> bool) \<Rightarrow> ContentElement list \<Rightarrow> ContentElement list" where
  "prune holds [] = []"
| "prune holds (ConditionalElement eid condition thens None # rest) =
     (if holds condition then prune holds thens else []) @ prune holds rest"
| "prune holds (ConditionalElement eid condition thens (Some elses) # rest) =
     (if holds condition then prune holds thens else prune holds elses) @ prune holds rest"
| "prune holds (element # rest) = element # prune holds rest"

fun all_accepted :: "host \<Rightarrow> int \<Rightarrow> jsval \<Rightarrow> ContentElement list \<Rightarrow> bool" where
  "all_accepted h maxLength vars [] = True"
| "all_accepted h maxLength vars (ConditionalElement eid condition thens None # rest) =
     (\<not> isl (evaluateCondition h maxLength condition vars) \<and> all_accepted h maxLength vars thens
      \<and> all_accepted h maxLength vars rest)"
| "all_accepted h maxLength vars (ConditionalElement eid condition thens (Some elses) # rest) =
     (\<not> isl (evaluateCondition h maxLength condition vars) \<and> all_accepted h maxLength vars thens
      \<and> all_accepted h maxLength vars elses \<and> all_accepted h maxLength vars rest)"
| "all_accepted h maxLength vars (element # rest) = all_accepted h maxLength vars rest"

definition condition_holds :: "host \<Rightarrow> int \<Rightarrow> jsval \<Rightarrow> jstring \<Rightarrow> bool" where
  "condition_holds h maxLength vars condition = (evaluateCondition h maxLength condition vars = Inr True)"


text \<open>
  An example for conditional pruning: the condition \<open>count > 3\<close> with its syntax tree, and
  a host that parses it and compares two numbers.
\<close>

definition count_host :: host where
  "count_host =
     bare_host\<lparr>
       jsep := (\<lambda>condition.
                 if condition = str ''count > 3''
                 then Inr (BinaryExpression (str ''>'') (Identifier (str ''count'')) (Literal (JNum 3)))
                 else Inl (str ''Error: cannot parse'')),
       compare := (\<lambda>operator a b.
                    (case (a, b) of
                       (JNum x, JNum y) \<Rightarrow> (if operator = str ''>'' then Some (x > y) else None)
                     | _ \<Rightarrow> None)) \<rparr>"

definition count_content :: "ContentElement list" where
  "count_content =
     [TextElement None (str ''Items: ''),
      ConditionalElement None (str ''count > 3'')
        [TextElement None (str ''many'')] (Some [TextElement None (str ''few'')])]"

text \<open>An example for prompt assembly: an instruction type whose template is bracketed.\<close>

definition bracketed_types :: jsval where
  "bracketed_types =
     plain [(str ''list'', plain [(str ''template'', JStr (str ''<<{description}>>'')),
                                  (str ''source'', JStr (str ''custom''))])]"

definition square_template :: ITSTemplate where
  "square_template =
     \<lparr> version = str ''1.0.0'', description = None, extends = None, variables = None,
       customInstructionTypes = None, content = [],
       compilerConfig = Some \<lparr> systemPrompt = Some (str ''S''), userContentWrapper = None,
                               instructionWrapper = Some (str ''[[{instruction}]]''),
                               processingInstructions = Some [] \<rparr> \<rparr>"


text \<open>
  A defined scalar and its string form, \<open>String(v)\<close>. Every number of the host prints in
  far fewer than a thousand characters; the numbers of the model are held to that.
\<close>

fun is_scalar :: "host \<Rightarrow> jsval \<Rightarrow> bool" where
  "is_scalar h (JStr s) = True"
| "is_scalar h (JNum n) = (length (number_text h n) \<le> 1000)"
| "is_scalar h (JBool b) = True"
| "is_scalar h _ = False"

fun scalar_string :: "host \<Rightarrow> jsval \<Rightarrow> jstring" where
  "scalar_string h (JStr s) = s"
| "scalar_string h (JNum n) = number_text h n"
| "scalar_string h (JBool b) = (if b then str ''true'' else str ''false'')"
| "scalar_string h _ = []"


text \<open>An example for interpolation: one variable, and a template that names another.\<close>

definition topic_variables :: jsval where
  "topic_variables = plain [(str ''topic'', JStr (str ''x''))]"

definition missing_template :: ITSTemplate where
  "missing_template =
     \<lparr> version = str ''1.0.0'', description = None, extends = None,
       variables = Some (JObjectPrototype, [(str ''topic'', True, JStr (str ''x''))]),
       customInstructionTypes = None,
       content = [TextElement None (str ''Hi ${missing}'')],
       compilerConfig = None \<rparr>"


text \<open>
  An example for schema loading: two schema URLs and the answers of the network. Both
  schemas and the template's custom types define one instruction type of the same name.
\<close>

definition url_a :: jstring where
  "url_a = str ''https://a.example/types.json''"

definition url_b :: jstring where
  "url_b = str ''https://b.example/types.json''"

definition schema_defining :: "jstring \<Rightarrow> jstring \<Rightarrow> jsval" where
  "schema_defining name tmpl =
     plain [(str ''instructionTypes'', plain [(name, plain [(str ''template'', JStr tmpl)])])]"

definition json_response :: "jstring \<Rightarrow> http_response" where
  "json_response text =
     \<lparr> ok = True, status = 200, statusText = str ''OK'',
       content_type = Some (str ''application/json''), content_length = None, body = text \<rparr>"

definition two_schema_host :: "jstring \<Rightarrow> host" where
  "two_schema_host name =
     bare_host\<lparr>
       url_parse := (\<lambda>url.
          if url = url_a
          then Some \<lparr> protocol = str ''https:'', hostname = str ''a.example'', pathname = str ''/types.json'' \<rparr>
          else if url = url_b
          then Some \<lparr> protocol = str ''https:'', hostname = str ''b.example'', pathname = str ''/types.json'' \<rparr>
          else None),
       fetch := (\<lambda>n url.
          if url = url_a then Responded (json_response (str ''schema A''))
          else if url = url_b then Responded (json_response (str ''schema B''))
          else Failed (str ''FetchError'') (str ''request failed'')),
       json_parse := (\<lambda>text.
          if text = str ''schema A'' then Some (schema_defining name (str ''A: {description}''))
          else if text = str ''schema B'' then Some (schema_defining name (str ''B: {description}''))
          else None) \<rparr>"

definition override_template :: "jstring \<Rightarrow> ITSTemplate" where
  "override_template name =
     \<lparr> version = str ''1.0.0'', description = None, extends = Some [url_a, url_b],
       variables = None,
       customInstructionTypes = Some (plain [(name, plain [(str ''template'', JStr (str ''C: {description}''))])]),
       content = [TextElement None (str ''Hello'')],
       compilerConfig = None \<rparr>"

definition type_override :: "jstring \<Rightarrow> jstring \<Rightarrow> jsval \<Rightarrow> OverrideType \<Rightarrow> TypeOverride" where
  "type_override name by_source of_source kind =
     \<lparr> typeName = name, overrideSource = by_source, overriddenSource = of_source, overrideType = kind \<rparr>"

text \<open>
  An example for compilation: the template \<open>{version: "1.0.0", content: [{type: "text",
  text: "Hello world"}]}\<close>, a host that serialises it, and variables of a caller.
\<close>

definition hello_template :: ITSTemplate where
  "hello_template =
     \<lparr> version = str ''1.0.0'', description = None, extends = None, variables = None,
       customInstructionTypes = None,
       content = [TextElement None (str ''Hello world'')],
       compilerConfig = None \<rparr>"

definition quoted :: "jstring \<Rightarrow> jstring" where
  "quoted s = [34] @ s @ [34]"

definition hello_content_json :: jstring where
  "hello_content_json =
     str ''[{'' @ quoted (str ''type'') @ str '':'' @ quoted (str ''text'') @ str '',''
       @ quoted (str ''text'') @ str '':'' @ quoted (str ''Hello world'') @ str ''}]''"

definition hello_host :: host where
  "hello_host =
     bare_host\<lparr>
       json_template := (\<lambda>t. str ''{'' @ quoted (str ''version'') @ str '':'' @ quoted (str ''1.0.0'')
                              @ str '','' @ quoted (str ''content'') @ str '':'' @ hello_content_json
                              @ str ''}''),
       json_content := (\<lambda>elements. hello_content_json) \<rparr>"

definition caller_variables :: jsval where
  "caller_variables = plain [(str ''constructor'', JStr (str ''x''))]"


definition cache_entry :: "jsval \<Rightarrow> int \<Rightarrow> int \<Rightarrow> CacheEntry" where
  "cache_entry sch t1 t2 = \<lparr> schema = sch, cachedAt = t1, expiresAt = t2 \<rparr>"


text \<open>The same host for the type name \<open>summary\<close>, and the loader after one load of the first URL.\<close>

definition summary_host :: host where
  "summary_host = two_schema_host (str ''summary'')"

definition summary_schema :: jsval where
  "summary_schema = schema_defining (str ''summary'') (str ''A: {description}'')"

definition cached_state :: loader_state where
  "cached_state =
     \<lparr> cache = [url_a \<mapsto> cache_entry summary_schema 0 3600001], ticks = 2, requests = [url_a] \<rparr>"


text \<open>
  The host of the interpolation example serialises its content, and an example for a name
  that no variables map defines but \<open>Object.prototype\<close> has: the template
  \<open>{version: "1.0.0", content: [{type: "text", text: "Hi ${toString}"}]}\<close>, and a host
  that serialises it and prints the inherited function as the usual hosts do.
\<close>

definition missing_content_json :: jstring where
  "missing_content_json =
     str ''[{'' @ quoted (str ''type'') @ str '':'' @ quoted (str ''text'') @ str '',''
       @ quoted (str ''text'') @ str '':'' @ quoted (str ''Hi ${missing}'') @ str ''}]''"

definition missing_host :: host where
  "missing_host =
     bare_host\<lparr>
       json_template := (\<lambda>t. str ''{'' @ quoted (str ''version'') @ str '':'' @ quoted (str ''1.0.0'')
                              @ str '','' @ quoted (str ''variables'') @ str '':{''
                              @ quoted (str ''topic'') @ str '':'' @ quoted (str ''x'') @ str ''},''
                              @ quoted (str ''content'') @ str '':'' @ missing_content_json
                              @ str ''}''),
       json_content := (\<lambda>elements. missing_content_json) \<rparr>"

definition native_text :: jstring where
  "native_text = str ''function toString() { [native code] }''"

definition inherited_template :: ITSTemplate where
  "inherited_template =
     \<lparr> version = str ''1.0.0'', description = None, extends = None, variables = None,
       customInstructionTypes = None,
       content = [TextElement None (str ''Hi ${toString}'')],
       compilerConfig = None \<rparr>"

definition inherited_content_json :: jstring where
  "inherited_content_json =
     str ''[{'' @ quoted (str ''type'') @ str '':'' @ quoted (str ''text'') @ str '',''
       @ quoted (str ''text'') @ str '':'' @ quoted (str ''Hi ${toString}'') @ str ''}]''"

definition inherited_host :: host where
  "inherited_host =
     bare_host\<lparr>
       json_template := (\<lambda>t. str ''{'' @ quoted (str ''version'') @ str '':'' @ quoted (str ''1.0.0'')
                              @ str '','' @ quoted (str ''content'') @ str '':'' @ inherited_content_json
                              @ str ''}''),
       json_content := (\<lambda>elements. inherited_content_json),
       obj_to_string := (\<lambda>v. if v = JFun (str ''toString'') then Some native_text else None) \<rparr>"


section \<open>Verified properties: the matcher\<close>














section \<open>Verified properties: the text deny-list\<close>







section \<open>Verified properties: the SSRF guard\<close>

lemma is_private_metadata: "isPrivateNetwork (str ''169.254.169.254'')"
  by code_simp

text \<open>
  Claim C4. The host's URL class reads \<open>http://169.254.169.254/\<close> as the protocol
  \<open>http:\<close>, the host name \<open>169.254.169.254\<close> and the path \<open>/\<close>. Under the default
  security configuration with \<open>allowHttp\<close> set to true, \<open>validateSchemaUrl\<close> rejects it
  with the security violation of the private-network rule, and \<open>loadSchema\<close> raises that
  violation and leaves the loader as it was: no clock reading, no request to the network.
\<close>

theorem link_local_url_rejected:
  assumes "url_parse h metadata_url = Some metadata_url_parsed"
  shows "validateSchemaUrl h (DEFAULT_SECURITY_CONFIG\<lparr>allowHttp := True\<rparr>) metadata_url
           = Inl (private_network_blocked (str ''169.254.169.254''))
       \<and> loadSchema h (DEFAULT_SECURITY_CONFIG\<lparr>allowHttp := True\<rparr>) cacheTTL timeout st metadata_url baseUrl
           = (Inl (private_network_blocked (str ''169.254.169.254'')), st)"
proof -
  have v: "validateSchemaUrl h (DEFAULT_SECURITY_CONFIG\<lparr>allowHttp := True\<rparr>) metadata_url
           = Inl (private_network_blocked (str ''169.254.169.254''))"
    using assms is_private_metadata
    by (simp add: validateSchemaUrl_def metadata_url_parsed_def DEFAULT_SECURITY_CONFIG_def
          startsWith_def dangerousProtocols_def validateHostname_def toLowerCase_def
          localhostVariants_def private_network_blocked_def)
  have r: "resolveUrl h metadata_url baseUrl = metadata_url"
    using assms by (simp add: resolveUrl_def split: option.splits)
  show ?thesis using v r by (simp add: loadSchema_def)
qed

theorem link_local_url_rejected_witness:
  "url_parse (bare_host\<lparr>url_parse := (\<lambda>url. if url = metadata_url then Some metadata_url_parsed else None)\<rparr>)
      metadata_url = Some metadata_url_parsed
   \<and> validateSchemaUrl (bare_host\<lparr>url_parse := (\<lambda>url. if url = metadata_url then Some metadata_url_parsed else None)\<rparr>)
       (DEFAULT_SECURITY_CONFIG\<lparr>allowHttp := True\<rparr>) metadata_url
           = Inl (private_network_blocked (str ''169.254.169.254''))
   \<and> loadSchema (bare_host\<lparr>url_parse := (\<lambda>url. if url = metadata_url then Some metadata_url_parsed else None)\<rparr>)
       (DEFAULT_SECURITY_CONFIG\<lparr>allowHttp := True\<rparr>) CACHE_TTL 10000 initial_state metadata_url None
           = (Inl (private_network_blocked (str ''169.254.169.254'')), initial_state)"
  using link_local_url_rejected
          [of "bare_host\<lparr>url_parse := (\<lambda>url. if url = metadata_url then Some metadata_url_parsed else None)\<rparr>"
              CACHE_TTL 10000 initial_state None]
  by simp


section \<open>Verified properties: conditional pruning\<close>

lemma prune_no_conditional: "e \<in> set (prune holds elements) \<Longrightarrow> \<not> is_conditional e"
  by (induction holds elements rule: prune.induct) (auto split: if_splits)

lemma evaluateContent_prune:
  "all_accepted h m vars elements \<Longrightarrow>
   evaluateContent h m vars elements = Inr (prune (condition_holds h m vars) elements)"
proof (induction h m vars elements rule: evaluateContent.induct)
  case (1 h maxLength vars)
  then show ?case by simp
next
  case (2 h maxLength vars eid condition thens rest)
  then show ?case
    by (cases "evaluateCondition h maxLength condition vars")
       (auto simp: condition_holds_def)
next
  case (3 h maxLength vars eid condition thens elses rest)
  then show ?case
    by (cases "evaluateCondition h maxLength condition vars")
       (auto simp: condition_holds_def)
qed simp_all

text \<open>
  Claim C6. When every condition of a content list evaluates to a boolean under the given
  variables, \<open>evaluateContent\<close> returns a result, and the result is the pruned content of
  the specification: of each conditional exactly the \<open>content\<close> branch is kept when its
  condition is true and exactly the \<open>else\<close> branch (nothing when there is none) when it is
  false, each pruned in turn. No element of the result is a conditional.
\<close>

theorem conditional_pruning:
  assumes "all_accepted h maxLength vars elements"
  shows "evaluateContent h maxLength vars elements
           = Inr (prune (condition_holds h maxLength vars) elements)
       \<and> (\<forall>e \<in> set (prune (condition_holds h maxLength vars) elements). \<not> is_conditional e)"
  using assms by (simp add: evaluateContent_prune prune_no_conditional)

lemma count_is_five:
  "evaluateCondition count_host 500 (str ''count > 3'') (plain [(str ''count'', JNum 5)]) = Inr True"
  by code_simp

lemma count_is_two:
  "evaluateCondition count_host 500 (str ''count > 3'') (plain [(str ''count'', JNum 2)]) = Inr False"
  by code_simp

theorem conditional_pruning_witness:
  "all_accepted count_host 500 (plain [(str ''count'', JNum 5)]) count_content
   \<and> evaluateContent count_host 500 (plain [(str ''count'', JNum 5)]) count_content
       = Inr [TextElement None (str ''Items: ''), TextElement None (str ''many'')]
   \<and> \<not> is_conditional (TextElement None (str ''Items: ''))
   \<and> \<not> is_conditional (TextElement None (str ''many''))"
proof -
  have a: "all_accepted count_host 500 (plain [(str ''count'', JNum 5)]) count_content"
    using count_is_five by (simp add: count_content_def)
  have p: "prune (condition_holds count_host 500 (plain [(str ''count'', JNum 5)])) count_content
           = [TextElement None (str ''Items: ''), TextElement None (str ''many'')]"
    using count_is_five by (simp add: count_content_def condition_holds_def)
  show ?thesis using conditional_pruning [OF a] a p by simp
qed

lemma else_branch_example:
  "evaluateContent count_host 500 (plain [(str ''count'', JNum 2)]) count_content
     = Inr [TextElement None (str ''Items: ''), TextElement None (str ''few'')]"
  using count_is_two by (simp add: count_content_def)


section \<open>Verified properties: expression evaluation\<close>

lemma undefined_identifier_raises:
  assumes "\<not> is_primitive vars" and "\<not> has_property h vars name"
  shows "evaluateASTNode h vars (Identifier name)
           = Inl (JsError (str ''Variable '' @ [39] @ name @ [39] @ str '' is not defined''))"
  using assms by simp

lemma undefined_identifier_condition:
  assumes "validateConditionSecurity maxLength condition = Inr ()"
    and "jsep h condition = Inr (Identifier name)"
    and "\<not> is_primitive vars" and "\<not> has_property h vars name"
  shows "evaluateCondition h maxLength condition vars
           = Inl (evaluation_failure condition
                    (str ''Error: Variable '' @ [39] @ name @ [39] @ str '' is not defined''))"
  using assms by (simp add: evaluateCondition_def)

text \<open>
  Claim C9 fails on the code. The test of the identifier case is \<open>name in variables\<close>,
  which also finds what the variables object inherits from \<open>Object.prototype\<close>. Under the
  empty variables map \<open>{}\<close> the condition \<open>toString\<close>, an identifier that the map does not
  define, raises no error: it evaluates to the inherited function, and the condition is true.
\<close>

theorem inherited_name_evaluates:
  "evaluateCondition (h\<lparr>jsep := (\<lambda>condition. Inr (Identifier (str ''toString'')))\<rparr>) 500
      (str ''toString'') (plain []) = Inr True"
proof -
  have "validateConditionSecurity 500 (str ''toString'') = Inr ()" by code_simp
  then show ?thesis
    by (simp add: evaluateCondition_def plain_def is_primitive_def object_prototype_names_def
          get_property_def)
qed


section \<open>Verified properties: prompt assembly\<close>

lemma processed_content_append:
  "processed_content h w its (pre @ post) =
     (case processed_content h w its pre of
        Inl err \<Rightarrow> Inl err
      | Inr a \<Rightarrow> map_sum id ((@) a) (processed_content h w its post))"
proof (induction h w its pre rule: processed_content.induct)
  case (1 h wrapper instructionTypes)
  show ?case by (cases "processed_content h wrapper instructionTypes post") simp_all
next
  case (2 h wrapper instructionTypes eid body_text rest)
  then show ?case
    by (cases "processed_content h wrapper instructionTypes rest";
        cases "processed_content h wrapper instructionTypes post") simp_all
next
  case (3 h wrapper instructionTypes eid tname config rest)
  then show ?case
    by (cases "generateInstruction h eid tname config instructionTypes";
        cases "processed_content h wrapper instructionTypes rest";
        cases "processed_content h wrapper instructionTypes post") simp_all
next
  case (4 h wrapper instructionTypes eid c thens elses rest)
  then show ?case by simp
qed

text \<open>
  Claim C10. In the prompt, a placeholder whose formatted instruction starts with \<open><<\<close>
  and ends with \<open>>>\<close> stands as that instruction, unchanged, whatever the template
  configured as \<open>instructionWrapper\<close>; any other instruction stands as the wrapper with its
  first \<open>{instruction}\<close> replaced by the instruction.
\<close>

theorem bracketed_instruction_unchanged:
  assumes "generateInstruction h eid tname config its = Inr instruction"
    and "processed_content h (the_wrapper t) its pre = Inr before"
    and "processed_content h (the_wrapper t) its post = Inr after"
  shows "generatePrompt h (pre @ PlaceholderElement eid tname config # post) its t
     = Inr (join [10] (prompt_parts t @
          [concat before
           @ (if startsWith instruction (str ''<<'') \<and> endsWith instruction (str ''>>'')
              then instruction
              else replace_first (the_wrapper t) (str ''{instruction}'') instruction)
           @ concat after]))"
  using assms by (simp add: generatePrompt_def processed_content_append wrap_instruction_def)

theorem bracketed_instruction_unchanged_witness:
  "generateInstruction bare_host None (str ''list'')
      (plain [(str ''description'', JStr (str ''Name three fruits''))]) bracketed_types
     = Inr (str ''<<Name three fruits>>'')
   \<and> processed_content bare_host (the_wrapper square_template) bracketed_types
        [TextElement None (str ''A: '')] = Inr [str ''A: '']
   \<and> processed_content bare_host (the_wrapper square_template) bracketed_types [] = Inr []
   \<and> generatePrompt bare_host
        ([TextElement None (str ''A: '')] @
         PlaceholderElement None (str ''list'') (plain [(str ''description'', JStr (str ''Name three fruits''))]) # [])
        bracketed_types square_template
     = Inr (join [10] [str ''INTRODUCTION'', [], str ''S'', [], str ''INSTRUCTIONS'', [], [],
                       str ''TEMPLATE'', [], str ''A: <<Name three fruits>>''])"
proof -
  have g: "generateInstruction bare_host None (str ''list'')
      (plain [(str ''description'', JStr (str ''Name three fruits''))]) bracketed_types
     = Inr (str ''<<Name three fruits>>'')" by code_simp
  have b: "processed_content bare_host (the_wrapper square_template) bracketed_types
        [TextElement None (str ''A: '')] = Inr [str ''A: '']" by simp
  have a: "processed_content bare_host (the_wrapper square_template) bracketed_types [] = Inr []"
    by simp
  have pp: "prompt_parts square_template
     = [str ''INTRODUCTION'', [], str ''S'', [], str ''INSTRUCTIONS'', [], [], str ''TEMPLATE'', []]"
    by (simp add: prompt_parts_def square_template_def nonempty_or_def numbered_def)
  show ?thesis
    using bracketed_instruction_unchanged [OF g b a] g b a pp
    by (simp add: startsWith_def endsWith_def)
qed

section \<open>Verified properties: interpolation\<close>

lemma parse_parts_error:
  "parse_parts varRef current rest = Inl e \<Longrightarrow> is_variable_error e"
proof (induction varRef current rest arbitrary: e rule: parse_parts.induct)
  case (1 varRef current)
  then show ?case by simp
next
  case (2 varRef current c cs)
  show ?case
  proof (cases "c = 46")
    case True
    with 2 show ?thesis by (cases "parse_parts varRef [] cs") auto
  next
    case False
    note not_dot = this
    show ?thesis
    proof (cases "c = 91")
      case False
      with 2 not_dot show ?thesis by auto
    next
      case True
      show ?thesis
      proof (cases "length cs \<le> length (takeWhile (\<lambda>x. x \<noteq> 93) cs)")
        case True
        with 2(4) not_dot \<open>c = 91\<close> show ?thesis by (auto simp: Let_def)
      next
        case False
        note closed = this
        show ?thesis
        proof (cases "parseInt (takeWhile (\<lambda>x. x \<noteq> 93) cs)")
          case None
          with 2(4) not_dot \<open>c = 91\<close> closed show ?thesis by (auto simp: Let_def)
        next
          case (Some n)
          with 2(2) [OF not_dot \<open>c = 91\<close> refl _ Some] 2(4) not_dot \<open>c = 91\<close> closed
          show ?thesis
            by (cases "parse_parts varRef [] (drop (Suc (length (takeWhile (\<lambda>x. x \<noteq> 93) cs))) cs)")
               (auto simp: Let_def)
        qed
      qed
    qed
  qed
qed

lemma resolve_parts_error:
  "resolve_parts h varRef current parts = Inl e \<Longrightarrow> is_variable_error e"
  by (induction h varRef current parts rule: resolve_parts.induct)
     (auto simp: index_error_def Let_def split: if_splits)

lemma resolve_error:
  "resolveVariableReference h varRef vars = Inl e \<Longrightarrow> is_variable_error e"
  by (auto simp: resolveVariableReference_def split: if_splits sum.splits
           dest: parse_parts_error resolve_parts_error)

lemma replace_reference_error:
  "replace_reference h vars varRef = Inl e \<Longrightarrow> is_variable_error e"
  by (auto simp: replace_reference_def split: sum.splits if_splits)

lemma replace_reference_unresolved:
  "resolveVariableReference h (trim varRef) vars = Inl e \<Longrightarrow> replace_reference h vars varRef = Inl e"
  by (frule resolve_error) (simp add: replace_reference_def)

lemma sanitise_scalar: "is_scalar h v \<Longrightarrow> sanitiseResolvedValue h v = Inr (scalar_string h v)"
  by (cases v) (auto simp: sanitiseResolvedValue_def)

lemma replace_reference_scalar:
  "resolveVariableReference h (trim varRef) vars = Inr v \<Longrightarrow> is_scalar h v
   \<Longrightarrow> replace_reference h vars varRef = Inr (scalar_string h v)"
  by (simp add: replace_reference_def sanitise_scalar)

lemma match_variable_token:
  assumes "name \<noteq> []" "125 \<notin> set name"
  shows "match_variable (str ''${'' @ name @ str ''}'' @ post) = Some (name, post)"
proof -
  have "takeWhile (\<lambda>c. c \<noteq> 125) (name @ 125 # post) = name"
    using assms(2) by (induction name) auto
  moreover have "drop (3 + length name) (36 # 123 # name @ 125 # post) = post"
    by (simp add: numeral_3_eq_3)
  ultimately show ?thesis using assms(1)
    by (simp add: match_variable_def startsWith_def)
qed

lemma match_variable_no_dollar: "c \<noteq> 36 \<Longrightarrow> match_variable (c # cs) = None"
  by (simp add: match_variable_def startsWith_def)

lemma processString_no_dollar:
  "36 \<notin> set pre \<Longrightarrow> processString h vars (pre @ rest) = map_sum id ((@) pre) (processString h vars rest)"
proof (induction pre)
  case Nil
  show ?case by (cases "processString h vars rest") simp_all
next
  case (Cons c pre)
  then show ?case
    by (cases "processString h vars rest") (simp_all add: match_variable_no_dollar)
qed

lemma processString_token:
  assumes "name \<noteq> []" "125 \<notin> set name"
  shows "processString h vars (str ''${'' @ name @ str ''}'' @ post) =
     (case replace_reference h vars name of
        Inl err \<Rightarrow> Inl err
      | Inr s \<Rightarrow> map_sum id ((@) s) (processString h vars post))"
proof -
  have "match_variable (36 # (123 # name @ 125 # post)) = Some (name, post)"
    using match_variable_token [OF assms, of post] by simp
  then have "processString h vars (36 # (123 # name @ 125 # post)) =
     (case replace_reference h vars name of
        Inl err \<Rightarrow> Inl err
      | Inr s \<Rightarrow> map_sum id ((@) s) (processString h vars post))"
    by simp
  then show ?thesis by simp
qed

lemma processString_unresolved:
  "r \<in> set (all_references s) \<Longrightarrow> resolveVariableReference h r vars = Inl e
   \<Longrightarrow> \<exists>e'. processString h vars s = Inl e' \<and> is_variable_error e'"
proof (induction h vars s rule: processString.induct)
  case (1 h vars)
  then show ?case by simp
next
  case (2 h vars c cs)
  show ?case
  proof (cases "match_variable (c # cs)")
    case None
    with 2 show ?thesis by auto
  next
    case (Some m)
    obtain varRef rest where m: "m = (varRef, rest)" by (cases m)
    show ?thesis
    proof (cases "replace_reference h vars varRef")
      case (Inl e')
      then show ?thesis using Some m by (auto dest: replace_reference_error)
    next
      case (Inr s)
      have "r \<noteq> trim varRef"
        using Inr 2(4) by (auto dest: replace_reference_unresolved)
      with 2(3) Some m have "r \<in> set (all_references rest)" by simp
      from 2(2) [OF Some m [symmetric] Inr this 2(4)]
      show ?thesis using Some m Inr by auto
    qed
  qed
qed

lemma processContent_text_fails:
  "isl (processString h vars s) \<Longrightarrow> isl (processContent h vars (pre @ TextElement eid s # post))"
proof (induction pre)
  case Nil
  then show ?case by (cases "processString h vars s") auto
next
  case (Cons a pre)
  then show ?case
    by (cases "processElement h vars a"; cases "processContent h vars (pre @ TextElement eid s # post)") auto
qed

lemma scalar_token_replaced:
  assumes "36 \<notin> set pre" and "name \<noteq> []" and "125 \<notin> set name"
    and "resolveVariableReference h (trim name) vars = Inr v" and "is_scalar h v"
  shows "processString h vars (pre @ str ''${'' @ name @ str ''}'' @ post)
            = map_sum id (\<lambda>out. pre @ scalar_string h v @ out) (processString h vars post)"
proof -
  have rr: "replace_reference h vars name = Inr (scalar_string h v)"
    using assms(4,5) by (simp add: replace_reference_scalar)
  have tok: "processString h vars (str ''${'' @ name @ str ''}'' @ post)
        = map_sum id ((@) (scalar_string h v)) (processString h vars post)"
    unfolding processString_token [OF assms(2,3)] rr by simp
  show ?thesis
    unfolding processString_no_dollar [OF assms(1)] tok
    by (cases "processString h vars post") simp_all
qed

lemma process_props_fails:
  assumes "(k, True, JStr s) \<in> set ps" and "isl (processString h vars s)"
  shows "isl (process_props h vars result ps)"
  using assms(1)
proof (induction ps arbitrary: result)
  case Nil
  then show ?case by simp
next
  case (Cons p ps)
  obtain k' e' v' where p: "p = (k', e', v')" by (cases p)
  show ?case
  proof (cases "p = (k, True, JStr s)")
    case True
    then show ?thesis using assms(2) by (cases "processString h vars s") auto
  next
    case False
    with Cons have "\<And>result. isl (process_props h vars result ps)" by simp
    then show ?thesis
      by (cases "processObject h vars v'") (auto simp: p)
  qed
qed

lemma processContent_placeholder_fails:
  assumes "isl (processObject h vars config)"
  shows "isl (processContent h vars (pre @ PlaceholderElement eid instructionType config # post))"
proof (induction pre)
  case Nil
  then show ?case using assms by (cases "processObject h vars config") auto
next
  case (Cons a pre)
  then show ?case
    by (cases "processElement h vars a";
        cases "processContent h vars (pre @ PlaceholderElement eid instructionType config # post)") auto
qed

lemma compilation_failed_class: "is_validation_or_compilation_error (compilation_failed err)"
  by (simp add: compilation_failed_def)

lemma compile_aborts:
  assumes "isl (processContent h (merge_variables t callerVariables) (content t))"
  shows "\<exists>e. fst (compile h cfg st t callerVariables baseUrl) = Inl e
           \<and> is_validation_or_compilation_error e"
proof -
  obtain e0 where e0: "processContent h (merge_variables t callerVariables) (content t) = Inl e0"
    using assms by (cases "processContent h (merge_variables t callerVariables) (content t)") auto
  obtain startTime st1 where d: "date_now h st = (startTime, st1)" by fastforce
  show ?thesis
  proof (cases "validateTemplate h cfg t")
    case (Inl err)
    then show ?thesis by (simp add: compile_def d compilation_failed_class)
  next
    case (Inr u)
    obtain vr st2 where v: "validate h cfg CACHE_TTL st1 t baseUrl = (vr, st2)" by fastforce
    show ?thesis
    proof (cases "isValid vr")
      case False
      then show ?thesis by (simp add: compile_def d Inr v)
    next
      case True
      obtain r st3 where l: "loadInstructionTypes h cfg CACHE_TTL st2 t baseUrl = (r, st3)"
        by fastforce
      show ?thesis
      proof (cases r)
        case (Inl err)
        then show ?thesis by (simp add: compile_def d Inr v True l compilation_failed_class)
      next
        case (Inr p)
        obtain its ovs where "p = (its, ovs)" by (cases p)
        then show ?thesis
          using e0 by (simp add: compile_def d \<open>validateTemplate h cfg t = Inr u\<close> v True l Inr
                        compilation_failed_class)
      qed
    qed
  qed
qed

lemma unresolved_text_aborts:
  assumes "content t = pre @ TextElement eid s # post"
    and "r \<in> set (all_references s)"
    and "resolveVariableReference h r (merge_variables t callerVariables) = Inl e"
  shows "\<exists>e'. fst (compile h cfg st t callerVariables baseUrl) = Inl e'
           \<and> is_validation_or_compilation_error e'"
proof -
  have "isl (processString h (merge_variables t callerVariables) s)"
    using processString_unresolved [OF assms(2,3)] by auto
  then have "isl (processContent h (merge_variables t callerVariables) (content t))"
    unfolding assms(1) by (rule processContent_text_fails)
  then show ?thesis by (rule compile_aborts)
qed

lemma unresolved_config_aborts:
  assumes "content t = pre @ PlaceholderElement eid instructionType (JObj proto ps) # post"
    and "(k, True, JStr s) \<in> set ps"
    and "r \<in> set (all_references s)"
    and "resolveVariableReference h r (merge_variables t callerVariables) = Inl e"
  shows "\<exists>e'. fst (compile h cfg st t callerVariables baseUrl) = Inl e'
           \<and> is_validation_or_compilation_error e'"
proof -
  have "isl (processString h (merge_variables t callerVariables) s)"
    using processString_unresolved [OF assms(3,4)] by auto
  then have "isl (processObject h (merge_variables t callerVariables) (JObj proto ps))"
    using process_props_fails [OF assms(2)] by simp
  then have "isl (processContent h (merge_variables t callerVariables) (content t))"
    unfolding assms(1) by (rule processContent_placeholder_fails)
  then show ?thesis by (rule compile_aborts)
qed

lemma topic_is_valid: "isValidVariableReference (str ''topic'')"
  by code_simp

lemma missing_is_valid: "isValidVariableReference (str ''missing'')"
  by code_simp

lemma topic_replaced:
  "processString h topic_variables (str ''About ${topic}'') = Inr (str ''About x'')"
proof -
  have "resolveVariableReference h (trim (str ''topic'')) topic_variables = Inr (JStr (str ''x''))"
    using topic_is_valid
    by (simp add: resolveVariableReference_def trim_def is_space_def flush_current_def plain_def
        get_property_def topic_variables_def)
  from scalar_token_replaced [OF _ _ _ this, of "str ''About ''" "[]"]
  show ?thesis by simp
qed

lemma missing_unresolved:
  "resolveVariableReference h (str ''missing'') topic_variables
     = Inl (ITSVariableError (str ''Property '' @ [39] @ str ''missing'' @ [39] @ str '' not found'')
              (Some (str ''missing'')) (Some [str ''topic'']))"
  using missing_is_valid
  by (simp add: resolveVariableReference_def flush_current_def plain_def
        object_prototype_names_def topic_variables_def get_property_def keys_def)

lemma missing_text_ok: "validateTextContent (str ''Hi ${missing}'') = Inr ()"
  by code_simp

lemma missing_topic_ok: "validateTextContent (str ''x'') = Inr ()"
  by code_simp

lemma missing_validateTemplate:
  "validateTemplate missing_host DEFAULT_SECURITY_CONFIG missing_template = Inr ()"
  using missing_text_ok missing_topic_ok
  by (simp add: validateTemplate_def missing_host_def missing_template_def bare_host_def
        DEFAULT_SECURITY_CONFIG_def missing_content_json_def quoted_def validateVariables_def
        check_own_names_def nesting_too_deep_def get_property_def dangerousProps_def
        isDangerousVariableName_def dangerousNames_def toLowerCase_def startsWith_def)

lemma missing_references: "all_references missing_content_json = [str ''missing'']"
  by (simp add: missing_content_json_def quoted_def match_variable_def startsWith_def
        trim_def is_space_def)

lemma missing_compile:
  "fst (compile missing_host DEFAULT_SECURITY_CONFIG initial_state missing_template None None)
     = Inl (ITSValidationError (str ''Template validation failed'')
              [str ''Property '' @ [39] @ str ''missing'' @ [39] @ str '' not found''] [])"
proof -
  have j: "json_content missing_host elements = missing_content_json" for elements
    by (simp add: missing_host_def)
  have v: "variables_object missing_template = topic_variables"
    by (simp add: variables_object_def missing_template_def topic_variables_def plain_def)
  have r: "reference_errors missing_host (content missing_template) (variables_object missing_template)
      = [str ''Property '' @ [39] @ str ''missing'' @ [39] @ str '' not found'']"
    using missing_unresolved [of missing_host]
    by (simp add: reference_errors_def findVariableReferences_def j missing_references v)
  have s: "structure_errors missing_host 0 (content missing_template) = []"
    by (simp add: missing_template_def)
  have l: "loadInstructionTypes missing_host DEFAULT_SECURITY_CONFIG CACHE_TTL st missing_template None
     = (Inr (plain [], []), st)" for st
    by (simp add: loadInstructionTypes_def missing_template_def plain_def)
  have "validate missing_host DEFAULT_SECURITY_CONFIG CACHE_TTL st missing_template None
     = (\<lparr> isValid = False,
           errors = [str ''Property '' @ [39] @ str ''missing'' @ [39] @ str '' not found''],
           warnings = [], securityIssues = [],
           validationTime = clock missing_host (Suc (ticks st)) - clock missing_host (ticks st) \<rparr>,
        st\<lparr>ticks := Suc (Suc (ticks st))\<rparr>)" for st
    using missing_validateTemplate r
    by (simp add: validate_def date_now_def l s)
       (simp add: missing_template_def)
  then show ?thesis
    using missing_validateTemplate by (simp add: compile_def date_now_def)
qed

lemma toString_is_valid: "isValidVariableReference (str ''toString'')"
  by code_simp

lemma inherited_resolves:
  "resolveVariableReference h (str ''toString'') (plain []) = Inr (JFun (str ''toString''))"
  using toString_is_valid
  by (simp add: resolveVariableReference_def flush_current_def plain_def get_property_def
        object_prototype_names_def)

lemma inherited_sanitised:
  "sanitiseResolvedValue inherited_host (JFun (str ''toString'')) = Inr native_text"
  by (simp add: sanitiseResolvedValue_def inherited_host_def bare_host_def native_text_def)

lemma inherited_replaced:
  "replace_reference inherited_host (plain []) (str ''toString'') = Inr native_text"
  using inherited_resolves [of inherited_host] inherited_sanitised
  by (simp add: replace_reference_def trim_def is_space_def)

lemma inherited_processString:
  "processString inherited_host (plain []) (str ''Hi ${toString}'')
     = Inr (str ''Hi function toString() { [native code] }'')"
proof -
  have "processString inherited_host (plain []) (str ''Hi '' @ str ''${'' @ str ''toString'' @ str ''}'' @ [])
      = map_sum id ((@) (str ''Hi '')) (processString inherited_host (plain [])
          (str ''${'' @ str ''toString'' @ str ''}'' @ []))"
    by (rule processString_no_dollar) simp
  also have "processString inherited_host (plain []) (str ''${'' @ str ''toString'' @ str ''}'' @ [])
      = Inr native_text"
    using inherited_replaced
    by (subst processString_token) simp_all
  finally show ?thesis by (simp add: native_text_def)
qed

lemma inherited_text_ok: "validateTextContent (str ''Hi ${toString}'') = Inr ()"
  by code_simp

lemma inherited_validateTemplate:
  "validateTemplate inherited_host DEFAULT_SECURITY_CONFIG inherited_template = Inr ()"
  using inherited_text_ok
  by (simp add: validateTemplate_def inherited_host_def inherited_template_def bare_host_def
        DEFAULT_SECURITY_CONFIG_def inherited_content_json_def quoted_def)

lemma inherited_references: "all_references inherited_content_json = [str ''toString'']"
  by (simp add: inherited_content_json_def quoted_def match_variable_def startsWith_def
        trim_def is_space_def)

lemma inherited_load:
  "loadInstructionTypes inherited_host DEFAULT_SECURITY_CONFIG CACHE_TTL st inherited_template None
     = (Inr (plain [], []), st)"
  by (simp add: loadInstructionTypes_def inherited_template_def plain_def)

lemma inherited_validate:
  "validate inherited_host DEFAULT_SECURITY_CONFIG CACHE_TTL st inherited_template None
     = (\<lparr> isValid = True, errors = [], warnings = [], securityIssues = [],
           validationTime = clock inherited_host (Suc (ticks st)) - clock inherited_host (ticks st) \<rparr>,
        st\<lparr>ticks := Suc (Suc (ticks st))\<rparr>)"
proof -
  have j: "json_content inherited_host elements = inherited_content_json" for elements
    by (simp add: inherited_host_def)
  have v: "variables_object inherited_template = plain []"
    by (simp add: variables_object_def inherited_template_def)
  have r: "reference_errors inherited_host (content inherited_template) (variables_object inherited_template) = []"
    using inherited_resolves [of inherited_host]
    by (simp add: reference_errors_def findVariableReferences_def j inherited_references v)
  have s: "structure_errors inherited_host 0 (content inherited_template) = []"
    by (simp add: inherited_template_def)
  show ?thesis
    using inherited_validateTemplate
    by (simp add: validate_def date_now_def inherited_load r s)
       (simp add: inherited_template_def)
qed

lemma inherited_merge: "merge_variables inherited_template None = plain []"
  by (simp add: merge_variables_def inherited_template_def variables_object_def spread2_def
        spread_into_def plain_def)

lemma inherited_process:
  "processContent inherited_host (plain []) (content inherited_template)
     = Inr [TextElement None (str ''Hi function toString() { [native code] }'')]"
  using inherited_processString by (simp add: inherited_template_def)

lemma inherited_prompt:
  "generatePrompt h [TextElement None s] its t = Inr (join [10] (prompt_parts t @ [s]))"
  by (simp add: generatePrompt_def)

text \<open>
  Claim C5 fails on the code. A token whose reference resolves to a defined scalar is
  replaced by the string form of the scalar, and a reference that fails to resolve raises
  a variable-resolution error and aborts the compilation. But \<open>resolveVariableReference\<close>
  asks \<open>part.name in current\<close>, which also finds what the object inherits from
  \<open>Object.prototype\<close>: under the empty variables map \<open>{}\<close> the reference
  \<open>${toString}\<close>, a name that the map does not define, resolves to the inherited
  function. The compilation of \<open>inherited_template\<close> does not abort; its prompt holds
  the text of that function in the place of the token.
\<close>

theorem inherited_name_interpolated:
  "resolveVariableReference h (str ''toString'') (plain []) = Inr (JFun (str ''toString''))
   \<and> \<not> hasOwnProperty (plain []) (str ''toString'')
   \<and> processString inherited_host (plain []) (str ''Hi ${toString}'')
       = Inr (str ''Hi function toString() { [native code] }'')
   \<and> map_sum id prompt
       (fst (compile inherited_host DEFAULT_SECURITY_CONFIG initial_state inherited_template None None))
       = Inr (join [10] (prompt_parts inherited_template
                @ [str ''Hi function toString() { [native code] }'']))"
proof -
  have "\<not> hasOwnProperty (plain []) (str ''toString'')"
    by (simp add: plain_def)
  moreover have "map_sum id prompt
       (fst (compile inherited_host DEFAULT_SECURITY_CONFIG initial_state inherited_template None None))
       = Inr (join [10] (prompt_parts inherited_template
                @ [str ''Hi function toString() { [native code] }'']))"
    using inherited_process
    by (simp add: compile_def date_now_def inherited_validateTemplate inherited_validate
          inherited_merge inherited_load inherited_prompt)
  ultimately show ?thesis
    using inherited_resolves [of h] inherited_processString by simp
qed


section \<open>Verified properties: array indices\<close>

lemma items_reference_is_valid: "isValidVariableReference (str ''items[-1]'')"
  by code_simp

lemma items_reference_parts:
  "parse_parts (str ''items[-1]'') [] (str ''items[-1]'') = Inr [Property (str ''items''), Index (- 1)]"
  by (simp add: flush_current_def parseInt_def is_space_def is_digit_def digits_value_def)

lemma last_by_interpolation:
  assumes "own_lookup ps (str ''items'') = Some (JArr vs)" and "vs \<noteq> []"
  shows "resolveVariableReference h (str ''items[-1]'') (JObj proto ps) = Inr (last vs)"
proof -
  have "nat (int (length vs) - 1) = length vs - 1" by simp
  then have "vs ! nat (int (length vs) - 1) = last vs"
    using assms(2) by (simp add: last_conv_nth)
  then show ?thesis
    using assms items_reference_is_valid items_reference_parts
    by (simp add: resolveVariableReference_def get_property_def)
qed

lemma out_of_range_by_interpolation:
  assumes "n \<ge> int (length vs) \<or> n < - int (length vs)"
  shows "resolve_parts h varRef (JArr vs) (Index n # rest) = Inl (index_error h n (JArr vs) varRef)"
  using assms by auto

lemma out_of_range_by_member:
  assumes "n \<ge> int (length vs) \<or> n < - int (length vs)"
  shows "member_access h (JArr vs) (JNum n) = Inl (index_out_of_bounds h n)"
  using assms by (auto simp: member_access_def validatePropertyAccess_def)

lemma show_nat_pos: "show_nat n \<noteq> []"
  by (subst show_nat.simps) simp

lemma negative_is_no_index: "n < 0 \<Longrightarrow> array_index (show_int n) = None"
  by (simp add: array_index_def show_int_def is_digit_def)

lemma negative_in_range_by_member:
  assumes "- int (length vs) \<le> n" and "n < 0" and "- 9007199254740992 < n"
  shows "member_access h (JArr vs) (JNum n)
           = Inr (case proto_member h (JArr vs) (show_int n) of Some v \<Rightarrow> v | None \<Rightarrow> JUndefined)"
proof -
  have "show_int n \<noteq> str ''length''"
    using assms(2) by (simp add: show_int_def)
  then show ?thesis
    using assms negative_is_no_index [OF assms(2)]
    by (simp add: member_access_def validatePropertyAccess_def member_read_def get_property_def
          number_text_def)
qed

text \<open>
  Claim C3 fails on the code. Through interpolation \<open>items[-1]\<close> is the last element,
  and an index out of range raises an error on both paths. Through expression member
  access the bounds of a negative index are checked against \<open>length + N\<close>, but the
  value read is \<open>object[property]\<close> with the negative number itself: for the array
  \<open>[1, 2, 3]\<close> the expression \<open>items[-1]\<close> is the property named \<open>-1\<close> of the
  array, which is \<open>undefined\<close> on a host whose arrays inherit no such property, where
  \<open>${items[-1]}\<close> is \<open>3\<close>.
\<close>

theorem negative_index_member_reads_property:
  "evaluateASTNode h (plain [(str ''items'', JArr [JNum 1, JNum 2, JNum 3])])
      (MemberExpression True (Identifier (str ''items''))
         (UnaryExpression (str ''-'') (Literal (JNum 1))))
     = Inr (case proto_member h (JArr [JNum 1, JNum 2, JNum 3]) (str ''-1'') of
              Some v \<Rightarrow> v | None \<Rightarrow> JUndefined)
   \<and> evaluateASTNode (h\<lparr>proto_member := (\<lambda>v k. None)\<rparr>) (plain [(str ''items'', JArr [JNum 1, JNum 2, JNum 3])])
      (MemberExpression True (Identifier (str ''items''))
         (UnaryExpression (str ''-'') (Literal (JNum 1))))
     = Inr JUndefined
   \<and> resolveVariableReference h (str ''items[-1]'') (plain [(str ''items'', JArr [JNum 1, JNum 2, JNum 3])])
     = Inr (JNum 3)"
proof -
  have e: "\<And>h. evaluateASTNode h (plain [(str ''items'', JArr [JNum 1, JNum 2, JNum 3])])
      (MemberExpression True (Identifier (str ''items''))
         (UnaryExpression (str ''-'') (Literal (JNum 1))))
     = Inr (case proto_member h (JArr [JNum 1, JNum 2, JNum 3]) (str ''-1'') of
              Some v \<Rightarrow> v | None \<Rightarrow> JUndefined)"
    by (simp add: plain_def is_primitive_def get_property_def unary_result_def member_access_def
        validatePropertyAccess_def member_read_def array_index_def is_digit_def show_int_def
        show_nat.simps digit_char_def number_text_def)
  have r: "resolveVariableReference h (str ''items[-1]'') (plain [(str ''items'', JArr [JNum 1, JNum 2, JNum 3])])
     = Inr (JNum 3)"
    using last_by_interpolation [of "[(str ''items'', True, JArr [JNum 1, JNum 2, JNum 3])]"
            "[JNum 1, JNum 2, JNum 3]" h JObjectPrototype]
    by (simp add: plain_def)
  show ?thesis using e [of h] e [of "h\<lparr>proto_member := (\<lambda>v k. None)\<rparr>"] r by simp
qed

section \<open>Verified properties: the schema cache\<close>

lemma validated_schema_truthy: "validateSchemaStructure h sch = Inr () \<Longrightarrow> truthy sch"
  by (cases sch) (auto simp: validateSchemaStructure_def split: if_splits)

lemma check_response_truthy: "check_response h response = Inr sch \<Longrightarrow> truthy sch"
  by (auto simp: check_response_def Let_def split: if_splits option.splits sum.splits
           dest: validated_schema_truthy)

lemma loadFromUrl_requests:
  "loadFromUrl h timeout st url = (r, st') \<Longrightarrow>
     st' = st\<lparr>requests := requests st @ [url]\<rparr> \<and> (\<forall>sch. r = Inr sch \<longrightarrow> truthy sch)"
  by (auto simp: loadFromUrl_def Let_def split: fetch_result.splits dest: check_response_truthy)

lemma loadSchema_miss:
  assumes "validateSchemaUrl h cfg (resolveUrl h url baseUrl) = Inr ()"
    and "cache st (resolveUrl h url baseUrl) = None"
    and "loadFromUrl h timeout st (resolveUrl h url baseUrl) = (r, st')"
  shows "loadSchema h cfg cacheTTL timeout st url baseUrl =
     (case r of
        Inl err \<Rightarrow> (Inl (schema_load_failed (resolveUrl h url baseUrl) err), st')
      | Inr sch \<Rightarrow> (Inr sch, saveToCache h cacheTTL st' (resolveUrl h url baseUrl) sch))"
  using assms by (simp add: loadSchema_def getFromCache_def split: sum.splits)

lemma loadSchema_hit:
  assumes "validateSchemaUrl h cfg (resolveUrl h url baseUrl) = Inr ()"
    and "cache st (resolveUrl h url baseUrl) = Some entry"
    and "truthy (schema entry)"
    and "clock h (ticks st) \<le> expiresAt entry"
  shows "loadSchema h cfg cacheTTL timeout st url baseUrl = (Inr (schema entry), st\<lparr>ticks := Suc (ticks st)\<rparr>)"
  using assms by (simp add: loadSchema_def getFromCache_def date_now_def)

lemma loadSchema_expired:
  assumes "validateSchemaUrl h cfg (resolveUrl h url baseUrl) = Inr ()"
    and "cache st (resolveUrl h url baseUrl) = Some entry"
    and "clock h (ticks st) > expiresAt entry"
    and "loadFromUrl h timeout (st\<lparr>ticks := Suc (ticks st), cache := (cache st)(resolveUrl h url baseUrl := None)\<rparr>)
            (resolveUrl h url baseUrl) = (r, st')"
  shows "loadSchema h cfg cacheTTL timeout st url baseUrl =
     (case r of
        Inl err \<Rightarrow> (Inl (schema_load_failed (resolveUrl h url baseUrl) err), st')
      | Inr sch \<Rightarrow> (Inr sch, saveToCache h cacheTTL st' (resolveUrl h url baseUrl) sch))"
  using assms by (simp add: loadSchema_def getFromCache_def date_now_def split: sum.splits)

lemma loadSchema_validated:
  "loadSchema h cfg cacheTTL timeout st url baseUrl = (Inr sch, st')
   \<Longrightarrow> validateSchemaUrl h cfg (resolveUrl h url baseUrl) = Inr ()"
  by (cases "validateSchemaUrl h cfg (resolveUrl h url baseUrl)") (auto simp: loadSchema_def Let_def)

text \<open>
  Claim C8. A first \<open>loadSchema\<close> of a URL that is not in the cache fetches the schema
  once and stores it with the expiry time: the clock reading at the store plus the TTL.
  From then on, as long as that entry is in the cache, a \<open>loadSchema\<close> whose clock
  reading is not after the expiry time returns the cached schema, sends no request and
  leaves the cache as it is; a \<open>loadSchema\<close> whose clock reading is after the expiry
  time sends exactly one request, and the old entry is gone: the cache holds the freshly
  fetched schema, or no entry when the fetch failed.
\<close>

theorem schema_cache_ttl:
  assumes first: "loadSchema h cfg cacheTTL timeout st0 url baseUrl = (Inr sch, st1)"
    and fresh: "cache st0 (resolveUrl h url baseUrl) = None"
  shows "cache st1 (resolveUrl h url baseUrl)
           = Some (cache_entry sch (clock h (ticks st0)) (clock h (Suc (ticks st0)) + cacheTTL))
     \<and> requests st1 = requests st0 @ [resolveUrl h url baseUrl]
     \<and> (\<forall>st2. cache st2 (resolveUrl h url baseUrl) = cache st1 (resolveUrl h url baseUrl)
              \<and> clock h (ticks st2) \<le> clock h (Suc (ticks st0)) + cacheTTL
          \<longrightarrow> loadSchema h cfg cacheTTL timeout st2 url baseUrl
                = (Inr sch, st2\<lparr>ticks := Suc (ticks st2)\<rparr>))
     \<and> (\<forall>st2 r st3. cache st2 (resolveUrl h url baseUrl) = cache st1 (resolveUrl h url baseUrl)
              \<and> clock h (ticks st2) > clock h (Suc (ticks st0)) + cacheTTL
              \<and> loadSchema h cfg cacheTTL timeout st2 url baseUrl = (r, st3)
          \<longrightarrow> requests st3 = requests st2 @ [resolveUrl h url baseUrl]
              \<and> (case r of
                    Inl err \<Rightarrow> cache st3 (resolveUrl h url baseUrl) = None
                  | Inr sch' \<Rightarrow> cache st3 (resolveUrl h url baseUrl)
                       = Some (cache_entry sch' (clock h (Suc (ticks st2)))
                                 (clock h (Suc (Suc (ticks st2))) + cacheTTL))))"
proof -
  let ?u = "resolveUrl h url baseUrl"
  have v: "validateSchemaUrl h cfg ?u = Inr ()" using first by (rule loadSchema_validated)
  obtain r0 st0' where l0: "loadFromUrl h timeout st0 ?u = (r0, st0')" by fastforce
  from loadFromUrl_requests [OF l0]
  have st0': "st0' = st0\<lparr>requests := requests st0 @ [?u]\<rparr>"
    and tr: "\<forall>s. r0 = Inr s \<longrightarrow> truthy s" by simp_all
  from first loadSchema_miss [OF v fresh l0, of cacheTTL]
  have r0: "r0 = Inr sch" and st1: "st1 = saveToCache h cacheTTL st0' ?u sch"
    by (cases r0; simp)+
  have t: "truthy sch" using tr r0 by simp
  have c1: "cache st1 ?u = Some (cache_entry sch (clock h (ticks st0)) (clock h (Suc (ticks st0)) + cacheTTL))"
    by (simp add: st1 st0' saveToCache_def date_now_def cache_entry_def)
  have q1: "requests st1 = requests st0 @ [?u]"
    by (simp add: st1 st0' saveToCache_def date_now_def)
  have hit: "loadSchema h cfg cacheTTL timeout st2 url baseUrl = (Inr sch, st2\<lparr>ticks := Suc (ticks st2)\<rparr>)"
    if "cache st2 ?u = cache st1 ?u \<and> clock h (ticks st2) \<le> clock h (Suc (ticks st0)) + cacheTTL" for st2
    using loadSchema_hit [OF v, of st2 "cache_entry sch (clock h (ticks st0)) (clock h (Suc (ticks st0)) + cacheTTL)" cacheTTL timeout]
      that c1 t by (simp add: cache_entry_def)
  have expired: "requests st3 = requests st2 @ [?u]
              \<and> (case r of
                    Inl err \<Rightarrow> cache st3 ?u = None
                  | Inr sch' \<Rightarrow> cache st3 ?u
                       = Some (cache_entry sch' (clock h (Suc (ticks st2)))
                                 (clock h (Suc (Suc (ticks st2))) + cacheTTL)))"
    if a: "cache st2 ?u = cache st1 ?u \<and> clock h (ticks st2) > clock h (Suc (ticks st0)) + cacheTTL
              \<and> loadSchema h cfg cacheTTL timeout st2 url baseUrl = (r, st3)" for st2 r st3
  proof -
    let ?st = "st2\<lparr>ticks := Suc (ticks st2), cache := (cache st2)(?u := None)\<rparr>"
    obtain r' st' where l: "loadFromUrl h timeout ?st ?u = (r', st')" by fastforce
    from loadFromUrl_requests [OF l] have st': "st' = ?st\<lparr>requests := requests ?st @ [?u]\<rparr>" by simp
    have e: "cache st2 ?u = Some (cache_entry sch (clock h (ticks st0)) (clock h (Suc (ticks st0)) + cacheTTL))"
      using a c1 by simp
    have "loadSchema h cfg cacheTTL timeout st2 url baseUrl =
       (case r' of
          Inl err \<Rightarrow> (Inl (schema_load_failed ?u err), st')
        | Inr s \<Rightarrow> (Inr s, saveToCache h cacheTTL st' ?u s))"
      using a by (intro loadSchema_expired [OF v e _ l]) (simp add: cache_entry_def)
    with a show ?thesis
      by (cases r') (auto simp: st' saveToCache_def date_now_def cache_entry_def)
  qed
  show ?thesis using c1 q1 hit expired by blast
qed

section \<open>Verified properties: unsafe keys of the variables\<close>

lemma dangerous_own_key_rejected:
  assumes "k \<in> set dangerousProps" and "k \<in> fst ` set ps"
  shows "\<exists>e. validateVariables h cfg proto ps path depth = Inl e \<and> is_security_error e"
proof -
  have "hasOwnProperty (JObj proto ps) k" using assms(2) by simp
  with assms(1) have "find (hasOwnProperty (JObj proto ps)) dangerousProps \<noteq> None"
    by (auto simp: find_None_iff)
  then show ?thesis
    by (auto simp: validateVariables_def check_own_names_def nesting_too_deep_def Let_def)
qed

lemma template_with_dangerous_key_rejected:
  assumes "variables t = Some (proto, ps)" and "k \<in> set dangerousProps" and "k \<in> fst ` set ps"
  shows "isl (validateTemplate h cfg t)"
    and "isl (fst (compile h cfg st t callerVariables baseUrl))"
proof -
  obtain e where e: "validateVariables h cfg proto ps [] 0 = Inl e"
    using dangerous_own_key_rejected [OF assms(2,3)] by blast
  show v: "isl (validateTemplate h cfg t)"
    using assms(1) e by (auto simp: validateTemplate_def Let_def split: sum.splits)
  then obtain e' where "validateTemplate h cfg t = Inl e'"
    by (cases "validateTemplate h cfg t") auto
  then show "isl (fst (compile h cfg st t callerVariables baseUrl))"
    by (simp add: compile_def date_now_def)
qed

lemma template_variables_example: "validateVariables h DEFAULT_SECURITY_CONFIG JObjectPrototype
        [(str ''constructor'', True, JStr (str ''x''))] [] 0
     = Inl (ITSSecurityError (str ''Dangerous property detected: constructor'')
              (str ''dangerous_property'') (str ''MALICIOUS_CONTENT'') None)"
  by (simp add: validateVariables_def DEFAULT_SECURITY_CONFIG_def check_own_names_def
        get_property_def dangerousProps_def)

lemma hello_text_ok: "validateTextContent (str ''Hello world'') = Inr ()"
  by code_simp

lemma hello_validateTemplate: "validateTemplate hello_host DEFAULT_SECURITY_CONFIG hello_template = Inr ()"
  using hello_text_ok
  by (simp add: validateTemplate_def hello_host_def hello_template_def bare_host_def
        DEFAULT_SECURITY_CONFIG_def hello_content_json_def quoted_def)

lemma hello_no_references: "all_references hello_content_json = []"
  by (simp add: hello_content_json_def quoted_def match_variable_def startsWith_def)

lemma hello_load:
  "loadInstructionTypes hello_host DEFAULT_SECURITY_CONFIG CACHE_TTL st hello_template None
     = (Inr (plain [], []), st)"
  by (simp add: loadInstructionTypes_def hello_template_def plain_def)

lemma hello_validate:
  "validate hello_host DEFAULT_SECURITY_CONFIG CACHE_TTL st hello_template None
     = (\<lparr> isValid = True, errors = [], warnings = [], securityIssues = [],
           validationTime = clock hello_host (Suc (ticks st)) - clock hello_host (ticks st) \<rparr>,
        st\<lparr>ticks := Suc (Suc (ticks st))\<rparr>)"
  using hello_validateTemplate hello_no_references
  by (simp add: validate_def date_now_def hello_load reference_errors_def findVariableReferences_def)
     (simp add: hello_template_def hello_host_def bare_host_def)

lemma hello_merge: "merge_variables hello_template (Some caller_variables) = caller_variables"
  by (simp add: merge_variables_def hello_template_def variables_object_def spread2_def
        spread_into_def plain_def caller_variables_def or_else_def array_index_def is_digit_def)

lemma hello_process: "processContent h vars (content hello_template) = Inr (content hello_template)"
  by (simp add: hello_template_def match_variable_def startsWith_def)

lemma hello_evaluate: "evaluateContent h m vars (content hello_template) = Inr (content hello_template)"
  by (simp add: hello_template_def)

lemma hello_prompt: "\<exists>p. generatePrompt h (content hello_template) its hello_template = Inr p"
  by (simp add: generatePrompt_def hello_template_def)

text \<open>
  Claim C1 fails on the code. The variables that a template declares are validated, and
  an own key \<open>__proto__\<close>, \<open>constructor\<close> or \<open>prototype\<close> among them is rejected
  however it was set. The variables that a caller supplies are merged in \<open>compile\<close>
  after the validation and are never validated: with the caller's variables
  \<open>{constructor: "x"}\<close> the compilation of the template \<open>hello_template\<close> succeeds, and
  the variables of the compilation have the own key \<open>constructor\<close>.
\<close>

theorem caller_variables_not_validated:
  "map_sum id result_variables
     (fst (compile hello_host DEFAULT_SECURITY_CONFIG initial_state hello_template
             (Some caller_variables) None))
     = Inr caller_variables
   \<and> hasOwnProperty caller_variables (str ''constructor'')"
proof -
  obtain p where p: "generatePrompt hello_host (content hello_template) (plain []) hello_template = Inr p"
    using hello_prompt by blast
  have "map_sum id result_variables
     (fst (compile hello_host DEFAULT_SECURITY_CONFIG initial_state hello_template
             (Some caller_variables) None)) = Inr caller_variables"
    by (simp add: compile_def date_now_def hello_validateTemplate hello_validate hello_merge
          hello_load hello_process hello_evaluate p)
  moreover have "hasOwnProperty caller_variables (str ''constructor'')"
    by (simp add: caller_variables_def plain_def)
  ultimately show ?thesis by simp
qed

section \<open>Verified properties: the schema example\<close>

lemma url_a_ok: "validateSchemaUrl (two_schema_host name) DEFAULT_SECURITY_CONFIG url_a = Inr ()"
proof -
  have "\<not> isPrivateNetwork (str ''a.example'')" by code_simp
  moreover have "\<not> includes_str (str ''/types.json'') (str ''..'')" by code_simp
  ultimately show ?thesis
    by (simp add: validateSchemaUrl_def two_schema_host_def bare_host_def DEFAULT_SECURITY_CONFIG_def
          startsWith_def dangerousProtocols_def validateHostname_def toLowerCase_def
          localhostVariants_def url_a_def)
qed

lemma url_b_ok: "validateSchemaUrl (two_schema_host name) DEFAULT_SECURITY_CONFIG url_b = Inr ()"
proof -
  have "\<not> isPrivateNetwork (str ''b.example'')" by code_simp
  moreover have "\<not> includes_str (str ''/types.json'') (str ''..'')" by code_simp
  ultimately show ?thesis
    by (simp add: validateSchemaUrl_def two_schema_host_def bare_host_def DEFAULT_SECURITY_CONFIG_def
          startsWith_def dangerousProtocols_def validateHostname_def toLowerCase_def
          localhostVariants_def url_a_def url_b_def)
qed

lemma json_ok: "includes_str (str ''application/json'') (str ''application/json'')"
  by code_simp

lemma fetch_a:
  "loadFromUrl (two_schema_host name) timeout st url_a
     = (Inr (schema_defining name (str ''A: {description}'')), st\<lparr>requests := requests st @ [url_a]\<rparr>)"
  using json_ok
  by (simp add: loadFromUrl_def two_schema_host_def bare_host_def check_response_def json_response_def
        max_schema_size_def validateSchemaStructure_def schema_defining_def plain_def
        get_property_def validateInstructionType_def)

lemma fetch_b:
  "loadFromUrl (two_schema_host name) timeout st url_b
     = (Inr (schema_defining name (str ''B: {description}'')), st\<lparr>requests := requests st @ [url_b]\<rparr>)"
  using json_ok
  by (simp add: loadFromUrl_def two_schema_host_def bare_host_def check_response_def json_response_def
        max_schema_size_def validateSchemaStructure_def schema_defining_def plain_def
        get_property_def validateInstructionType_def url_a_def url_b_def)

lemma resolve_none: "resolveUrl h url None = url"
  by (simp add: resolveUrl_def)

lemma load_a:
  assumes "cache st url_a = None"
  shows "loadSchema (two_schema_host name) DEFAULT_SECURITY_CONFIG cacheTTL timeout st url_a None
     = (Inr (schema_defining name (str ''A: {description}'')),
        saveToCache (two_schema_host name) cacheTTL (st\<lparr>requests := requests st @ [url_a]\<rparr>) url_a
          (schema_defining name (str ''A: {description}'')))"
  using assms url_a_ok [of name] fetch_a [of name timeout st]
  by (simp add: loadSchema_def getFromCache_def resolve_none)

lemma load_b:
  assumes "cache st url_b = None"
  shows "loadSchema (two_schema_host name) DEFAULT_SECURITY_CONFIG cacheTTL timeout st url_b None
     = (Inr (schema_defining name (str ''B: {description}'')),
        saveToCache (two_schema_host name) cacheTTL (st\<lparr>requests := requests st @ [url_b]\<rparr>) url_b
          (schema_defining name (str ''B: {description}'')))"
  using assms url_b_ok [of name] fetch_b [of name timeout st]
  by (simp add: loadSchema_def getFromCache_def resolve_none)

lemma urls_differ: "url_a \<noteq> url_b"
  by (simp add: url_a_def url_b_def)

lemma cache_after_save: "cache (saveToCache h cacheTTL st url sch) url' = (if url' = url then
     Some (cache_entry sch (clock h (ticks st)) (clock h (Suc (ticks st)) + cacheTTL)) else cache st url')"
  by (simp add: saveToCache_def date_now_def cache_entry_def)

lemma host_clock: "clock (two_schema_host name) n = int n"
  by (simp add: two_schema_host_def bare_host_def)

lemma first_load:
  "loadSchema summary_host DEFAULT_SECURITY_CONFIG CACHE_TTL 10000 initial_state url_a None
     = (Inr summary_schema, cached_state)"
proof -
  have "cache initial_state url_a = None" by (simp add: initial_state_def)
  from load_a [OF this, of "str ''summary''" CACHE_TTL 10000]
  show ?thesis
    by (simp add: summary_host_def summary_schema_def cached_state_def saveToCache_def date_now_def
          host_clock initial_state_def cache_entry_def CACHE_TTL_def)
qed

theorem schema_cache_ttl_witness:
  "(loadSchema summary_host DEFAULT_SECURITY_CONFIG CACHE_TTL 10000 initial_state url_a None
      = (Inr summary_schema, cached_state)
    \<and> cache initial_state (resolveUrl summary_host url_a None) = None)
   \<and> cache cached_state url_a = Some (cache_entry summary_schema 0 3600001)
   \<and> requests cached_state = [url_a]
   \<and> loadSchema summary_host DEFAULT_SECURITY_CONFIG CACHE_TTL 10000 (cached_state\<lparr>ticks := 3600001\<rparr>) url_a None
      = (Inr summary_schema, cached_state\<lparr>ticks := 3600002\<rparr>)
   \<and> loadSchema summary_host DEFAULT_SECURITY_CONFIG CACHE_TTL 10000 (cached_state\<lparr>ticks := 3600002\<rparr>) url_a None
      = (Inr summary_schema,
         \<lparr> cache = [url_a \<mapsto> cache_entry summary_schema 3600003 7200004], ticks = 3600005,
           requests = [url_a, url_a] \<rparr>)"
proof -
  have fresh: "cache initial_state (resolveUrl summary_host url_a None) = None"
    by (simp add: initial_state_def)
  note inst = schema_cache_ttl [OF first_load fresh]
  have u: "resolveUrl summary_host url_a None = url_a" by (simp add: resolveUrl_def)
  have c: "clock summary_host n = int n" for n by (simp add: summary_host_def host_clock)
  have t0: "ticks initial_state = 0" by (simp add: initial_state_def)
  have 1: "cache cached_state url_a = Some (cache_entry summary_schema 0 3600001)"
    using inst [THEN conjunct1] by (simp add: u c t0 CACHE_TTL_def)
  have 2: "requests cached_state = [url_a]"
    using inst [THEN conjunct2, THEN conjunct1] by (simp add: u initial_state_def)
  have 3: "loadSchema summary_host DEFAULT_SECURITY_CONFIG CACHE_TTL 10000 (cached_state\<lparr>ticks := 3600001\<rparr>) url_a None
      = (Inr summary_schema, cached_state\<lparr>ticks := 3600002\<rparr>)"
    using inst [THEN conjunct2, THEN conjunct2, THEN conjunct1, rule_format, of "cached_state\<lparr>ticks := 3600001\<rparr>"]
    by (simp add: u c t0 CACHE_TTL_def)
  let ?st2 = "cached_state\<lparr>ticks := 3600002\<rparr>"
  have l: "loadSchema summary_host DEFAULT_SECURITY_CONFIG CACHE_TTL 10000 ?st2 url_a None
      = (Inr summary_schema,
         \<lparr> cache = [url_a \<mapsto> cache_entry summary_schema 3600003 7200004], ticks = 3600005,
           requests = [url_a, url_a] \<rparr>)"
    using url_a_ok [of "str ''summary''"] fetch_a [of "str ''summary''" 10000]
    by (simp add: loadSchema_def getFromCache_def date_now_def u c cached_state_def cache_entry_def
          summary_host_def summary_schema_def saveToCache_def host_clock CACHE_TTL_def resolve_none)
  have "cache ?st2 (resolveUrl summary_host url_a None) = cache cached_state (resolveUrl summary_host url_a None)
      \<and> clock summary_host (ticks ?st2) > clock summary_host (Suc (ticks initial_state)) + CACHE_TTL
      \<and> loadSchema summary_host DEFAULT_SECURITY_CONFIG CACHE_TTL 10000 ?st2 url_a None
          = (Inr summary_schema,
         \<lparr> cache = [url_a \<mapsto> cache_entry summary_schema 3600003 7200004], ticks = 3600005,
           requests = [url_a, url_a] \<rparr>)"
    using l by (simp add: c t0 CACHE_TTL_def)
  note 4 = inst [THEN conjunct2, THEN conjunct2, THEN conjunct2, rule_format, OF this]
  show ?thesis using first_load fresh 1 2 3 l 4 by simp
qed


section \<open>Verified properties: override records\<close>

lemma new_definition_template:
  "new_definition h (plain [(str ''template'', JStr tmpl)]) src
     = plain [(str ''template'', JStr tmpl), (str ''source'', JStr src)]"
  by (simp add: new_definition_def plain_def get_property_def object_prototype_names_def)

lemma add_type_first:
  assumes "name \<noteq> str ''__proto__''" and "proto_member h (JFun name) (str ''source'') = None"
  shows "add_type h overrideSrc src kind (plain [], ovs) (name, plain [(str ''template'', JStr tmpl)])
     = Inr (plain [(name, plain [(str ''template'', JStr tmpl), (str ''source'', JStr src)])],
            ovs @ (if name \<in> set object_prototype_names
                   then [type_override name overrideSrc (JStr (str ''unknown'')) kind] else []))"
proof -
  have "plain [(str ''template'', JStr tmpl)] \<noteq> JNull" "plain [(str ''template'', JStr tmpl)] \<noteq> JUndefined"
    by (simp_all add: plain_def)
  moreover have "has_property h (plain []) name = (name \<in> set object_prototype_names)"
    by (simp add: plain_def)
  moreover have "get_property h (plain []) name
      = (if name \<in> set object_prototype_names then JFun name else JUndefined)"
    using assms(1) by (simp add: plain_def get_property_def)
  moreover have "get_property h (JFun name) (str ''source'') = JUndefined"
    using assms(2) by (simp add: get_property_def)
  moreover have "set_property (plain []) name d = plain [(name, d)]" for d
    using assms(1) by (simp add: plain_def)
  moreover note new_definition_template [of h tmpl src]
  ultimately show ?thesis
    by (simp add: add_type_def type_override_def or_else_def)
qed

lemma add_type_again:
  assumes "name \<noteq> str ''__proto__''" and "src' \<noteq> []"
  shows "add_type h overrideSrc src kind
           (plain [(name, plain [(str ''template'', JStr tmpl'), (str ''source'', JStr src')])], ovs)
           (name, plain [(str ''template'', JStr tmpl)])
     = Inr (plain [(name, plain [(str ''template'', JStr tmpl), (str ''source'', JStr src)])],
            ovs @ [type_override name overrideSrc (JStr src') kind])"
proof -
  let ?old = "plain [(str ''template'', JStr tmpl'), (str ''source'', JStr src')]"
  have "plain [(str ''template'', JStr tmpl)] \<noteq> JNull" "plain [(str ''template'', JStr tmpl)] \<noteq> JUndefined"
    by (simp_all add: plain_def)
  moreover have "has_property h (plain [(name, ?old)]) name"
    by (simp add: plain_def)
  moreover have "get_property h (plain [(name, ?old)]) name = ?old"
    by (simp add: plain_def get_property_def)
  moreover have "?old \<noteq> JNull" "?old \<noteq> JUndefined"
    by (simp_all add: plain_def)
  moreover have "get_property h ?old (str ''source'') = JStr src'"
    by (simp add: plain_def get_property_def)
  moreover have "set_property (plain [(name, ?old)]) name d = plain [(name, d)]" for d
    using assms(1) by (simp add: plain_def)
  moreover note new_definition_template [of h tmpl src]
  ultimately show ?thesis
    using assms(2) by (simp add: add_type_def type_override_def or_else_def)
qed

lemma schema_entries:
  "entries (or_else (get_property h (schema_defining name tmpl) (str ''instructionTypes'')) (plain []))
     = [(name, plain [(str ''template'', JStr tmpl)])]"
  by (simp add: schema_defining_def plain_def get_property_def or_else_def)

lemma host_proto_member: "proto_member (two_schema_host name) v k = None"
  by (simp add: two_schema_host_def bare_host_def)

lemma override_records:
  assumes "name \<noteq> str ''__proto__''"
  shows "fst (loadInstructionTypes (two_schema_host name) DEFAULT_SECURITY_CONFIG CACHE_TTL initial_state
                (override_template name) None)
     = Inr (plain [(name, plain [(str ''template'', JStr (str ''C: {description}'')),
                                 (str ''source'', JStr (str ''custom''))])],
            (if name \<in> set object_prototype_names
             then [type_override name url_a (JStr (str ''unknown'')) SCHEMA_EXTENSION] else [])
            @ [type_override name url_b (JStr url_a) SCHEMA_EXTENSION,
               type_override name (str ''customInstructionTypes'') (JStr url_b) CUSTOM])"
proof -
  let ?h = "two_schema_host name"
  define st1 where "st1 = saveToCache ?h CACHE_TTL (initial_state\<lparr>requests := requests initial_state @ [url_a]\<rparr>) url_a
          (schema_defining name (str ''A: {description}''))"
  have a: "loadSchema ?h DEFAULT_SECURITY_CONFIG CACHE_TTL (requestTimeout DEFAULT_SECURITY_CONFIG) initial_state url_a None
     = (Inr (schema_defining name (str ''A: {description}'')), st1)"
    unfolding st1_def by (rule load_a) (simp add: initial_state_def)
  have "cache st1 url_b = None"
    using urls_differ by (simp add: st1_def cache_after_save initial_state_def)
  from load_b [OF this]
  have b: "loadSchema ?h DEFAULT_SECURITY_CONFIG CACHE_TTL (requestTimeout DEFAULT_SECURITY_CONFIG) st1 url_b None
     = (Inr (schema_defining name (str ''B: {description}'')),
        saveToCache ?h CACHE_TTL (st1\<lparr>requests := requests st1 @ [url_b]\<rparr>) url_b
          (schema_defining name (str ''B: {description}'')))" .
  have nonempty: "url_a \<noteq> []" "url_b \<noteq> []"
    by (simp_all add: url_a_def url_b_def)
  have custom: "entries (or_else (plain [(name, plain [(str ''template'', JStr (str ''C: {description}''))])]) (plain []))
      = [(name, plain [(str ''template'', JStr (str ''C: {description}''))])]"
    by (simp add: or_else_def plain_def)
  let ?first = "if name \<in> set object_prototype_names
             then [type_override name url_a (JStr (str ''unknown'')) SCHEMA_EXTENSION] else []"
  have t1: "add_types ?h url_a url_a SCHEMA_EXTENSION (plain [], [])
      (entries (or_else (get_property ?h (schema_defining name (str ''A: {description}'')) (str ''instructionTypes'')) (plain [])))
    = Inr (plain [(name, plain [(str ''template'', JStr (str ''A: {description}'')), (str ''source'', JStr url_a)])], ?first)"
    using schema_entries [of ?h name "str ''A: {description}''"]
      add_type_first [OF assms host_proto_member, of name url_a url_a SCHEMA_EXTENSION "[]" "str ''A: {description}''"]
    by simp
  have t2: "add_types ?h url_b url_b SCHEMA_EXTENSION
      (plain [(name, plain [(str ''template'', JStr (str ''A: {description}'')), (str ''source'', JStr url_a)])], ?first)
      (entries (or_else (get_property ?h (schema_defining name (str ''B: {description}'')) (str ''instructionTypes'')) (plain [])))
    = Inr (plain [(name, plain [(str ''template'', JStr (str ''B: {description}'')), (str ''source'', JStr url_b)])],
           ?first @ [type_override name url_b (JStr url_a) SCHEMA_EXTENSION])"
    using schema_entries [of ?h name "str ''B: {description}''"]
      add_type_again [OF assms nonempty(1), of ?h url_b url_b SCHEMA_EXTENSION "str ''A: {description}''" ?first
         "str ''B: {description}''"]
    by simp
  have t3: "add_types ?h (str ''customInstructionTypes'') (str ''custom'') CUSTOM
      (plain [(name, plain [(str ''template'', JStr (str ''B: {description}'')), (str ''source'', JStr url_b)])],
           ?first @ [type_override name url_b (JStr url_a) SCHEMA_EXTENSION])
      (entries (or_else (plain [(name, plain [(str ''template'', JStr (str ''C: {description}''))])]) (plain [])))
    = Inr (plain [(name, plain [(str ''template'', JStr (str ''C: {description}'')), (str ''source'', JStr (str ''custom''))])],
           ?first @ [type_override name url_b (JStr url_a) SCHEMA_EXTENSION,
                     type_override name (str ''customInstructionTypes'') (JStr url_b) CUSTOM])"
    using custom
      add_type_again [OF assms nonempty(2), of ?h "str ''customInstructionTypes''" "str ''custom''" CUSTOM
         "str ''B: {description}''" "?first @ [type_override name url_b (JStr url_a) SCHEMA_EXTENSION]"
         "str ''C: {description}''"]
    by simp
  have ext: "extends (override_template name) = Some [url_a, url_b]"
    and cus: "customInstructionTypes (override_template name)
       = Some (plain [(name, plain [(str ''template'', JStr (str ''C: {description}''))])])"
    by (simp_all add: override_template_def)
  show ?thesis
    unfolding loadInstructionTypes_def ext cus
    using t1 t2 t3 a b by simp
qed

lemma ordinary_type_name_two_overrides:
  "fst (loadInstructionTypes (two_schema_host (str ''summary'')) DEFAULT_SECURITY_CONFIG CACHE_TTL initial_state
          (override_template (str ''summary'')) None)
     = Inr (plain [(str ''summary'', plain [(str ''template'', JStr (str ''C: {description}'')),
                                            (str ''source'', JStr (str ''custom''))])],
            [type_override (str ''summary'') url_b (JStr url_a) SCHEMA_EXTENSION,
             type_override (str ''summary'') (str ''customInstructionTypes'') (JStr url_b) CUSTOM])"
  using override_records [of "str ''summary''"] by (simp add: object_prototype_names_def)

text \<open>
  Claim C7 fails on the code. \<open>loadInstructionTypes\<close> asks \<open>typeName in instructionTypes\<close>
  of an object that inherits from \<open>Object.prototype\<close>, so a type named like an inherited
  property is taken as already defined when it is defined for the first time. With
  \<open>extends: [A, B]\<close> and custom types that all define the type \<open>toString\<close>, the final
  definition is the custom one, and three override records are produced: first a
  schema-extension override by \<open>A\<close> of a definition of source \<open>unknown\<close>, then the two
  records that the claim names.
\<close>

theorem inherited_type_name_three_overrides:
  "fst (loadInstructionTypes (two_schema_host (str ''toString'')) DEFAULT_SECURITY_CONFIG CACHE_TTL initial_state
          (override_template (str ''toString'')) None)
     = Inr (plain [(str ''toString'', plain [(str ''template'', JStr (str ''C: {description}'')),
                                             (str ''source'', JStr (str ''custom''))])],
            [type_override (str ''toString'') url_a (JStr (str ''unknown'')) SCHEMA_EXTENSION,
             type_override (str ''toString'') url_b (JStr url_a) SCHEMA_EXTENSION,
             type_override (str ''toString'') (str ''customInstructionTypes'') (JStr url_b) CUSTOM])"
  using override_records [of "str ''toString''"] by (simp add: object_prototype_names_def)

end
